theory Spec2Isabelle
  imports Complex_Main "HOL-Library.Multiset" "HOL-Library.AList"
begin

section \<open>Go values shared by the whole package\<close>

text \<open>
  A Go \<^verbatim>\<open>[]byte\<close> and a Go \<^verbatim>\<open>string\<close> are both byte sequences, and the
  conversions between them copy the bytes unchanged: both are \<^typ>\<open>string\<close> here.

  A Go \<^verbatim>\<open>error\<close> is a value of the datatype below. The constructors are the
  kinds of error value that the package creates or tests for:
  \<^item> \<open>ContextCanceled\<close>, \<open>ContextDeadlineExceeded\<close>: the two sentinel values of
    package \<^verbatim>\<open>context\<close>;
  \<^item> \<open>NetErr msg cause\<close>: a foreign error that implements \<^verbatim>\<open>net.Error\<close> (for
    instance the \<^verbatim>\<open>*url.Error\<close> of \<^verbatim>\<open>http.Client.Do\<close>), with what it unwraps to;
  \<^item> \<open>ErrorString msg\<close>: \<^verbatim>\<open>errors.New(msg)\<close>, \<^verbatim>\<open>fmt.Errorf\<close> without \<^verbatim>\<open>%w\<close>, or
    any other foreign error that unwraps to nothing;
  \<^item> \<open>WrapError prefix e\<close>: \<^verbatim>\<open>fmt.Errorf(prefix + "%w", e)\<close>;
  \<^item> \<open>NetworkError e msg\<close>: \<^verbatim>\<open>&NetworkError{Err: e, Message: msg}\<close>, where
    \<open>e\<close> may be nil.
\<close>

datatype go_error =
    ContextCanceled
  | ContextDeadlineExceeded
  | NetErr string "go_error option"
  | ErrorString string
  | WrapError string go_error
  | NetworkError "go_error option" string

section \<open>crypto.go: signing and verification\<close>

text \<open>
  The standard library functions that \<^verbatim>\<open>crypto.go\<close> calls are parameters of the
  model, collected in one record; \<open>'k\<close> is \<^verbatim>\<open>*rsa.PrivateKey\<close>, \<open>'p\<close> is
  \<^verbatim>\<open>*rsa.PublicKey\<close>. \<^verbatim>\<open>rsa.SignPKCS1v15\<close> is deterministic in its result (its
  random source only blinds the private-key operation), so it is a function of key and
  digest. \<^verbatim>\<open>rsa.VerifyPKCS1v15\<close> returns nil (\<open>None\<close>) or an error.
\<close>

record ('k, 'p) crypto =
  PublicKey :: "'k \<Rightarrow> 'p"
  sha1_Sum :: "string \<Rightarrow> string"
  rsa_SignPKCS1v15 :: "'k \<Rightarrow> string \<Rightarrow> go_error + string"
  rsa_VerifyPKCS1v15 :: "'p \<Rightarrow> string \<Rightarrow> string \<Rightarrow> go_error option"
  base64_EncodeToString :: "string \<Rightarrow> string"
  base64_DecodeString :: "string \<Rightarrow> go_error + string"

definition signPayload :: "('k, 'p) crypto \<Rightarrow> 'k \<Rightarrow> string \<Rightarrow> go_error + string" where
  "signPayload c pub payload =
     (case rsa_SignPKCS1v15 c pub (sha1_Sum c payload) of
        Inl err \<Rightarrow> Inl err
      | Inr out \<Rightarrow> Inr out)"

definition verifySignature :: "('k, 'p) crypto \<Rightarrow> 'p \<Rightarrow> string \<Rightarrow> string \<Rightarrow> go_error option" where
  "verifySignature c pub hash sig = rsa_VerifyPKCS1v15 c pub hash sig"

definition Sign :: "('k, 'p) crypto \<Rightarrow> 'k \<Rightarrow> string \<Rightarrow> go_error + string" where
  "Sign c privateKey payload =
     (case signPayload c privateKey payload of
        Inl err \<Rightarrow> Inl (WrapError ''unable to sign the payload: '' err)
      | Inr signature \<Rightarrow>
          (case verifySignature c (PublicKey c privateKey) (sha1_Sum c payload) signature of
             Some err \<Rightarrow> Inl (WrapError ''could not verify signature '' err)
           | None \<Rightarrow> Inr signature))"

definition VerifySignature :: "('k, 'p) crypto \<Rightarrow> 'p \<Rightarrow> string \<Rightarrow> string \<Rightarrow> go_error option" where
  "VerifySignature c publicKey payload signature =
     (case base64_DecodeString c signature of
        Inl err \<Rightarrow> Some (WrapError ''could not verify signature '' err)
      | Inr sg \<Rightarrow>
          (case rsa_VerifyPKCS1v15 c publicKey (sha1_Sum c payload) sg of
             Some err \<Rightarrow> Some (WrapError ''could not verify signature '' err)
           | None \<Rightarrow> None))"

definition SignPayload :: "('k, 'p) crypto \<Rightarrow> 'k \<Rightarrow> string \<Rightarrow> go_error + string" where
  "SignPayload c privateKey payload =
     (case signPayload c privateKey payload of
        Inl err \<Rightarrow> Inl (WrapError ''unable to sign the payload: '' err)
      | Inr out \<Rightarrow>
          (case VerifySignature c (PublicKey c privateKey) payload (base64_EncodeToString c out) of
             Some err \<Rightarrow> Inl (WrapError ''invalid signature '' err)
           | None \<Rightarrow> Inr out))"

definition encodeBase64Bytes :: "('k, 'p) crypto \<Rightarrow> string \<Rightarrow> string" where
  "encodeBase64Bytes c val = base64_EncodeToString c val"

text \<open>
  A small instance of the library parameters on which the definitions can be run: the
  digest reverses the payload, a signature is the key followed by the digest, and the
  text encoding is the identity. The key \<open>''worn''\<close> stands for a corrupted key: it
  signs, but what it produces does not verify.
\<close>

definition demo_crypto :: "(string, string) crypto" where
  "demo_crypto =
     \<lparr> PublicKey = (\<lambda>k. k),
       sha1_Sum = rev,
       rsa_SignPKCS1v15 =
         (\<lambda>k h. if k = [] then Inl (ErrorString ''crypto/rsa: missing key'')
                else if k = ''worn'' then Inr h
                else Inr (k @ h)),
       rsa_VerifyPKCS1v15 =
         (\<lambda>p h s. if s = p @ h then None else Some (ErrorString ''crypto/rsa: verification error'')),
       base64_EncodeToString = (\<lambda>b. b),
       base64_DecodeString = (\<lambda>s. Inr s) \<rparr>"

section \<open>Payment types\<close>

type_synonym PaymentType = string

definition CashPaymentType :: PaymentType where "CashPaymentType = ''CASH''"
definition CreditCardPaymentType :: PaymentType where "CreditCardPaymentType = ''CCARD''"
definition ChequePaymentType :: PaymentType where "ChequePaymentType = ''CHEQUE''"
definition InvoicePaymentType :: PaymentType where "InvoicePaymentType = ''INVOICE''"
definition ElectronicPaymentType :: PaymentType where "ElectronicPaymentType = ''EMONEY''"

text \<open>
  The argument of \<^verbatim>\<open>ParsePayment\<close> has static type \<^verbatim>\<open>any\<close>. Its dynamic type is
  \<^verbatim>\<open>int\<close>, \<^verbatim>\<open>int64\<close>, \<^verbatim>\<open>string\<close> or something else (another integer type, a
  float, nil, a struct): the type switch of the source tells exactly these four apart.
  A failed type assertion \<^verbatim>\<open>i.(int)\<close> is a run-time panic.
\<close>

datatype any = AnyInt int | AnyInt64 int | AnyString string | AnyOther

datatype panic = InterfaceConversion

text \<open>
  \<^verbatim>\<open>strings.ToUpper\<close> is a parameter (it maps Unicode letters, not only ASCII ones).
  In the first case of the type switch the variable \<^verbatim>\<open>i\<close> keeps the type \<^verbatim>\<open>any\<close>,
  because the case lists two types; the assertion \<^verbatim>\<open>i.(int)\<close> then succeeds on an
  \<^verbatim>\<open>int\<close> and panics on an \<^verbatim>\<open>int64\<close>.
\<close>

definition ParsePayment_int :: "int \<Rightarrow> PaymentType" where
  "ParsePayment_int valueInt =
     (if valueInt = 1 then CashPaymentType
      else if valueInt = 2 then ChequePaymentType
      else if valueInt = 3 then CreditCardPaymentType
      else if valueInt = 4 then ElectronicPaymentType
      else if valueInt = 5 then InvoicePaymentType
      else CashPaymentType)"

definition ParsePayment_string :: "string \<Rightarrow> PaymentType" where
  "ParsePayment_string valueString =
     (if valueString = ''CASH'' then CashPaymentType
      else if valueString = ''CHEQUE'' then ChequePaymentType
      else if valueString = ''CCARD'' then CreditCardPaymentType
      else if valueString = ''EMONEY'' then ElectronicPaymentType
      else if valueString = ''INVOICE'' then InvoicePaymentType
      else CashPaymentType)"

fun ParsePayment :: "(string \<Rightarrow> string) \<Rightarrow> any \<Rightarrow> panic + PaymentType" where
  "ParsePayment ToUpper (AnyInt i) = Inr (ParsePayment_int i)"
| "ParsePayment ToUpper (AnyInt64 i) = Inl InterfaceConversion"
| "ParsePayment ToUpper (AnyString i) = Inr (ParsePayment_string (ToUpper i))"
| "ParsePayment ToUpper AnyOther = Inr CashPaymentType"

section \<open>float64 arithmetic\<close>

text \<open>
  Every amount of money in the package is a Go \<^verbatim>\<open>float64\<close>. The model is generic in
  the type \<open>'f\<close> of these values and takes the operations the source applies to them
  as a record: the conversion of a decimal constant of the source text, the four
  arithmetic operators and \<^verbatim>\<open>math.Round\<close>. What is proved for every such record holds
  for IEEE 754 binary64 in particular, whatever its rounding does.
\<close>

record 'f float64 =
  f64_const :: "rat \<Rightarrow> 'f"
  f64_add :: "'f \<Rightarrow> 'f \<Rightarrow> 'f"
  f64_sub :: "'f \<Rightarrow> 'f \<Rightarrow> 'f"
  f64_mul :: "'f \<Rightarrow> 'f \<Rightarrow> 'f"
  f64_quo :: "'f \<Rightarrow> 'f \<Rightarrow> 'f"
  math_Round :: "'f \<Rightarrow> 'f"

section \<open>The data of receipts and reports\<close>

text \<open>
  The structs of the package and of \<^verbatim>\<open>internal/models\<close>, with the fields and the
  names of the source. A Go \<^verbatim>\<open>int64\<close> field is an \<^typ>\<open>int\<close>: no arithmetic is done
  on these fields. The fields \<^verbatim>\<open>XMLName\<close> and \<^verbatim>\<open>Text\<close> of the XML structs are never
  assigned and are left out; the wrapper structs \<^verbatim>\<open>ITEMS\<close>, \<^verbatim>\<open>VATTOTALS\<close> and
  \<^verbatim>\<open>PAYMENTS\<close>, whose one remaining field is a slice, are that slice.
  \<^verbatim>\<open>models.VATTOTAL\<close> is \<open>models_VATTOTAL\<close>, to tell it from the \<^verbatim>\<open>VATTOTAL\<close>
  of the package itself.
\<close>

record 'f Item =
  ID :: string
  Description :: string
  TaxCode :: int
  Quantity :: 'f
  UnitPrice :: 'f
  Discount :: 'f

record 'f Payment =
  Type :: PaymentType
  Amount :: 'f

record 'f VATTOTAL =
  ID :: string
  Rate :: 'f
  TaxAmount :: 'f
  NetAmount :: 'f

record ReceiptParams =
  Date :: string
  Time :: string
  TIN :: string
  RegistrationID :: string
  EFDSerial :: string
  ReceiptNum :: string
  DailyCounter :: int
  GlobalCounter :: int
  ZNum :: string
  ReceiptVNum :: string

record Customer =
  Type :: int
  ID :: string
  Name :: string
  Mobile :: string

record 'f ITEM =
  ID :: string
  DESC :: string
  QTY :: 'f
  TAXCODE :: int
  AMT :: 'f

record 'f TOTALS =
  TOTALTAXEXCL :: 'f
  TOTALTAXINCL :: 'f
  DISCOUNT :: 'f

record models_VATTOTAL =
  VATRATE :: string
  NETTAMOUNT :: string
  TAXAMOUNT :: string

record PAYMENT =
  PMTTYPE :: string
  PMTAMOUNT :: string

record 'f RCT =
  DATE :: string
  TIME :: string
  TIN :: string
  REGID :: string
  EFDSERIAL :: string
  CUSTIDTYPE :: int
  CUSTID :: string
  CUSTNAME :: string
  MOBILENUM :: string
  RCTNUM :: string
  DC :: int
  GC :: int
  ZNUM :: string
  RCTVNUM :: string
  ITEMS :: "'f ITEM list"
  TOTALS :: "'f TOTALS"
  PAYMENTS :: "PAYMENT list"
  VATTOTALS :: "models_VATTOTAL list"

record 'f ItemProcessResponse =
  ITEMS :: "'f ITEM list"
  VATTOTALS :: "models_VATTOTAL list"
  TOTALS :: "'f TOTALS"

text \<open>The struct \<^verbatim>\<open>vatTotal\<close> local to \<^verbatim>\<open>receipt.go\<close>.\<close>

record 'f vatTotal =
  VATRATE :: string
  NETTAMOUNT :: 'f
  TAXAMOUNT :: 'f

record 'f ReportTotals =
  DailyTotalAmount :: 'f
  Gross :: 'f
  Corrections :: 'f
  Discounts :: 'f
  Surcharges :: 'f
  TicketsVoid :: int
  TicketsVoidTotal :: 'f
  TicketsFiscal :: int
  TicketsNonFiscal :: int

record Address =
  Name :: string
  Street :: string
  Mobile :: string
  City :: string
  Country :: string

record ReportParams =
  Date :: string
  Time :: string
  VRN :: string
  TIN :: string
  UIN :: string
  TaxOffice :: string
  RegistrationID :: string
  ZNumber :: string
  EFDSerial :: string
  RegistrationDate :: string

record 'f REPORTTOTALS =
  DAILYTOTALAMOUNT :: 'f
  GROSS :: 'f
  CORRECTIONS :: 'f
  DISCOUNTS :: 'f
  SURCHARGES :: 'f
  TICKETSVOID :: int
  TICKETSVOIDTOTAL :: 'f
  TICKETSFISCAL :: int
  TICKETSNONFISCAL :: int

record CHANGES =
  VATCHANGENUM :: string
  HEADCHANGENUM :: string

record 'f ZREPORT =
  DATE :: string
  TIME :: string
  HEADER :: "string list"
  VRN :: string
  TIN :: string
  TAXOFFICE :: string
  REGID :: string
  ZNUMBER :: string
  EFDSERIAL :: string
  REGISTRATIONDATE :: string
  USER :: string
  SIMIMSI :: string
  TOTALS :: "'f REPORTTOTALS"
  VATTOTALS :: "models_VATTOTAL list"
  PAYMENTS :: "PAYMENT list"
  CHANGES :: CHANGES
  ERRORS :: string
  FWVERSION :: string
  FWCHECKSUM :: string

text \<open>
  The acknowledgements of the authority, \<^verbatim>\<open>models.RCTACK\<close> and \<^verbatim>\<open>models.ZACK\<close>, and
  the \<^verbatim>\<open>Response\<close> that the package returns.
\<close>

record RCTACK =
  RCTNUM :: int
  DATE :: string
  TIME :: string
  ACKCODE :: int
  ACKMSG :: string

record ZACK =
  ZNUMBER :: int
  DATE :: string
  TIME :: string
  ACKCODE :: int
  ACKMSG :: string

record Response =
  Number :: int
  Date :: string
  Time :: string
  Code :: int
  Message :: string

record RequestHeaders =
  CertSerial :: string
  BearerToken :: string

text \<open>
  The rest of the standard library, as parameters on top of the float64 operations:
  \<^item> \<open>Sprintf_2f x\<close> is \<^verbatim>\<open>fmt.Sprintf("%.2f", x)\<close>;
  \<^item> \<open>strings_Replace args s\<close> is \<^verbatim>\<open>strings.NewReplacer(args...).Replace(s)\<close>;
  \<^item> \<open>regexp_ReplaceAllString re src repl\<close> is
    \<^verbatim>\<open>regexp.MustCompile(re).ReplaceAllString(src, repl)\<close>;
  \<^item> \<open>map_range m\<close> is the order in which a \<^verbatim>\<open>range\<close> loop visits the entries of the
    map \<open>m\<close> of \<^verbatim>\<open>ProcessItems\<close> (Go leaves this order unspecified);
  \<^item> \<open>xml_Marshal_RCT\<close>, \<open>xml_Marshal_ZREPORT\<close> are \<^verbatim>\<open>xml.Marshal\<close> at the two types
    it is called on, and the three \<open>xml_Decode\<close> functions are
    \<^verbatim>\<open>xml.NewDecoder(...).Decode\<close> at the types \<^verbatim>\<open>models.Error\<close> (of which only
    \<^verbatim>\<open>Message\<close> is read), \<^verbatim>\<open>models.RCTACKEFDMS\<close> and \<^verbatim>\<open>models.ReportAckEFDMS\<close>
    (of which only the acknowledgement is read).
\<close>

record 'f stdlib = "'f float64" +
  Sprintf_2f :: "'f \<Rightarrow> string"
  strings_ToUpper :: "string \<Rightarrow> string"
  strings_Replace :: "string list \<Rightarrow> string \<Rightarrow> string"
  regexp_ReplaceAllString :: "string \<Rightarrow> string \<Rightarrow> string \<Rightarrow> string"
  map_range :: "(string \<times> 'f vatTotal) list \<Rightarrow> (string \<times> 'f vatTotal) list"
  xml_Marshal_RCT :: "'f RCT \<Rightarrow> go_error + string"
  xml_Marshal_ZREPORT :: "'f ZREPORT \<Rightarrow> go_error + string"
  xml_Decode_Error :: "string \<Rightarrow> go_error + string"
  xml_Decode_RCTACKEFDMS :: "string \<Rightarrow> go_error + RCTACK"
  xml_Decode_ReportAckEFDMS :: "string \<Rightarrow> go_error + ZACK"

definition xml_Header :: string where
  \<open>xml_Header = ''<?xml version="1.0" encoding="UTF-8"?>'' @ [CHR 0x0A]\<close>

section \<open>vat.go: the VAT taxonomy\<close>

record 'f ValueAddedTax =
  ID :: string
  Code :: int
  Name :: string
  Percentage :: 'f

definition standardVAT :: "('f, 'm) float64_scheme \<Rightarrow> 'f ValueAddedTax" where
  "standardVAT ops = \<lparr> ValueAddedTax.ID = ''A'', Code = 1,
     Name = ''Standard ValueAddedTax'', Percentage = f64_const ops 18 \<rparr>"

definition specialVAT :: "('f, 'm) float64_scheme \<Rightarrow> 'f ValueAddedTax" where
  "specialVAT ops = \<lparr> ValueAddedTax.ID = ''B'', Code = 2,
     Name = ''Special ValueAddedTax'', Percentage = f64_const ops 0 \<rparr>"

definition zeroVAT :: "('f, 'm) float64_scheme \<Rightarrow> 'f ValueAddedTax" where
  "zeroVAT ops = \<lparr> ValueAddedTax.ID = ''C'', Code = 3,
     Name = ''Zero ValueAddedTax'', Percentage = f64_const ops 0 \<rparr>"

definition specialReliefVAT :: "('f, 'm) float64_scheme \<Rightarrow> 'f ValueAddedTax" where
  "specialReliefVAT ops = \<lparr> ValueAddedTax.ID = ''D'', Code = 4,
     Name = ''Special Relief ValueAddedTax'', Percentage = f64_const ops 0 \<rparr>"

definition exemptedVAT :: "('f, 'm) float64_scheme \<Rightarrow> 'f ValueAddedTax" where
  "exemptedVAT ops = \<lparr> ValueAddedTax.ID = ''E'', Code = 5,
     Name = ''Exempted ValueAddedTax'', Percentage = f64_const ops 0 \<rparr>"

text \<open>The method \<^verbatim>\<open>(v *ValueAddedTax) NetAmount\<close>.\<close>

definition ValueAddedTax_NetAmount ::
  "('f, 'm) float64_scheme \<Rightarrow> 'f ValueAddedTax \<Rightarrow> 'f \<Rightarrow> 'f" where
  "ValueAddedTax_NetAmount ops v totalAmount =
     (let rate = f64_add ops (f64_const ops 1) (f64_quo ops (Percentage v) (f64_const ops 100));
          netAmount = f64_quo ops totalAmount rate
      in f64_quo ops (math_Round ops (f64_mul ops netAmount (f64_const ops 100)))
           (f64_const ops 100))"


definition ParseTaxCode :: "('f, 'm) float64_scheme \<Rightarrow> int \<Rightarrow> 'f ValueAddedTax" where
  "ParseTaxCode ops code =
     (if code = 1 then standardVAT ops
      else if code = 2 then specialVAT ops
      else if code = 3 then zeroVAT ops
      else if code = 4 then specialReliefVAT ops
      else if code = 5 then exemptedVAT ops
      else standardVAT ops)"


definition ValueAddedTaxID :: "('f, 'm) float64_scheme \<Rightarrow> int \<Rightarrow> string" where
  "ValueAddedTaxID ops taxCode = ValueAddedTax.ID (ParseTaxCode ops taxCode)"

definition NetAmount :: "('f, 'm) float64_scheme \<Rightarrow> int \<Rightarrow> 'f \<Rightarrow> 'f" where
  "NetAmount ops taxCode price =
     (let vat = ParseTaxCode ops taxCode in ValueAddedTax_NetAmount ops vat price)"

definition ValueAddedTaxAmount :: "('f, 'm) float64_scheme \<Rightarrow> int \<Rightarrow> 'f \<Rightarrow> 'f" where
  "ValueAddedTaxAmount ops taxCode price =
     (let vat = ParseTaxCode ops taxCode;
          netAmount = ValueAddedTax_NetAmount ops vat price;
          amount = f64_sub ops price netAmount
      in f64_quo ops (math_Round ops (f64_mul ops amount (f64_const ops 100)))
           (f64_const ops 100))"

section \<open>receipt.go: processing the items of a receipt\<close>

text \<open>
  The loop of \<^verbatim>\<open>ProcessItems\<close> over the items, with the five variables it updates as
  accumulators (a local variable whose name is also a field name has the prefix
  \<open>v\<close>). The Go map \<^verbatim>\<open>vatTotals\<close> is an association list with one entry per key: a
  missing key is appended, a present key is updated in place.
\<close>

text \<open>
  The \<^verbatim>\<open>if\<close> statement at the end of the loop body: a tax category that is not yet
  in the map gets a new entry seeded with the amounts of this item, a category that is
  there has the amounts added to its entry.
\<close>

definition vatTotals_add ::
  "('f, 'm) float64_scheme \<Rightarrow> (string \<times> 'f vatTotal) list \<Rightarrow> string \<Rightarrow> 'f \<Rightarrow> 'f \<Rightarrow>
   (string \<times> 'f vatTotal) list" where
  "vatTotals_add ops vatTotals vatID NETAMOUNT vTAXAMOUNT =
     (case map_of vatTotals vatID of
        None \<Rightarrow>
          vatTotals @ [(vatID, \<lparr> vatTotal.VATRATE = vatID, vatTotal.NETTAMOUNT = NETAMOUNT,
                                  vatTotal.TAXAMOUNT = vTAXAMOUNT \<rparr>)]
      | Some v \<Rightarrow>
          AList.update vatID
            (v\<lparr> vatTotal.NETTAMOUNT := f64_add ops (vatTotal.NETTAMOUNT v) NETAMOUNT,
                vatTotal.TAXAMOUNT := f64_add ops (vatTotal.TAXAMOUNT v) vTAXAMOUNT \<rparr>)
            vatTotals)"

fun ProcessItems_loop ::
  "('f, 'm) float64_scheme \<Rightarrow> 'f Item list \<Rightarrow> 'f \<Rightarrow> 'f \<Rightarrow> 'f \<Rightarrow>
   (string \<times> 'f vatTotal) list \<Rightarrow> 'f ITEM list \<Rightarrow>
   'f \<times> 'f \<times> 'f \<times> (string \<times> 'f vatTotal) list \<times> 'f ITEM list" where
  "ProcessItems_loop ops [] vDISCOUNT TOTALTAXEXCLUSIVE TOTALTAXINCLUSIVE vatTotals vITEMS =
     (vDISCOUNT, TOTALTAXEXCLUSIVE, TOTALTAXINCLUSIVE, vatTotals, vITEMS)"
| "ProcessItems_loop ops (item # items) vDISCOUNT TOTALTAXEXCLUSIVE TOTALTAXINCLUSIVE vatTotals vITEMS =
     (let itemAmount = f64_mul ops (Quantity item) (UnitPrice item);
          itemXML = \<lparr> ITEM.ID = Item.ID item, ITEM.DESC = Description item,
                      ITEM.QTY = Quantity item, ITEM.TAXCODE = TaxCode item,
                      ITEM.AMT = itemAmount \<rparr>;
          itemAmountWithoutDiscount = f64_sub ops itemAmount (Discount item);
          vDISCOUNT' = f64_add ops vDISCOUNT (Discount item);
          vITEMS' = vITEMS @ [itemXML];
          NETAMOUNT = NetAmount ops (TaxCode item) itemAmountWithoutDiscount;
          TOTALTAXEXCLUSIVE' = f64_add ops TOTALTAXEXCLUSIVE NETAMOUNT;
          TOTALTAXINCLUSIVE' = f64_add ops TOTALTAXINCLUSIVE itemAmountWithoutDiscount;
          TAXAMOUNT = ValueAddedTaxAmount ops (TaxCode item) itemAmountWithoutDiscount;
          vatID = ValueAddedTax.ID (ParseTaxCode ops (TaxCode item));
          vatTotals' = vatTotals_add ops vatTotals vatID NETAMOUNT TAXAMOUNT
      in ProcessItems_loop ops items vDISCOUNT' TOTALTAXEXCLUSIVE' TOTALTAXINCLUSIVE'
           vatTotals' vITEMS')"

definition ProcessItems :: "('f, 'm) stdlib_scheme \<Rightarrow> 'f Item list \<Rightarrow> 'f ItemProcessResponse" where
  "ProcessItems rt items =
     (case ProcessItems_loop rt items (f64_const rt 0) (f64_const rt 0) (f64_const rt 0) [] [] of
        (vDISCOUNT, TOTALTAXEXCLUSIVE, TOTALTAXINCLUSIVE, vatTotals, vITEMS) \<Rightarrow>
          (let vVATTOTALS =
                 map (\<lambda>(k, v). \<lparr> models_VATTOTAL.VATRATE = vatTotal.VATRATE v,
                                  models_VATTOTAL.NETTAMOUNT = Sprintf_2f rt (vatTotal.NETTAMOUNT v),
                                  models_VATTOTAL.TAXAMOUNT = Sprintf_2f rt (vatTotal.TAXAMOUNT v) \<rparr>)
                   (map_range rt vatTotals);
               vTOTALS = \<lparr> TOTALTAXEXCL = TOTALTAXEXCLUSIVE, TOTALTAXINCL = TOTALTAXINCLUSIVE,
                          DISCOUNT = vDISCOUNT \<rparr>
           in \<lparr> ItemProcessResponse.ITEMS = vITEMS, ItemProcessResponse.VATTOTALS = vVATTOTALS,
                ItemProcessResponse.TOTALS = vTOTALS \<rparr>))"

section \<open>internal/models: rounding the float64 fields\<close>

text \<open>The constant \<^verbatim>\<open>hundred\<close> of \<^verbatim>\<open>internal/models\<close>.\<close>

definition hundred :: rat where
  "hundred = 100"

text \<open>The method \<^verbatim>\<open>(r *RCT) RoundOff\<close>; the receiver is updated in place.\<close>

definition RCT_RoundOff :: "('f, 'm) float64_scheme \<Rightarrow> 'f RCT \<Rightarrow> 'f RCT" where
  "RCT_RoundOff ops r =
     r\<lparr> RCT.TOTALS :=
          \<lparr> TOTALTAXEXCL =
              f64_quo ops (math_Round ops (f64_mul ops (TOTALTAXEXCL (RCT.TOTALS r))
                 (f64_const ops hundred))) (f64_const ops hundred),
            TOTALTAXINCL =
              f64_quo ops (math_Round ops (f64_mul ops (TOTALTAXINCL (RCT.TOTALS r))
                 (f64_const ops hundred))) (f64_const ops hundred),
            DISCOUNT =
              f64_quo ops (math_Round ops (f64_mul ops (DISCOUNT (RCT.TOTALS r))
                 (f64_const ops hundred))) (f64_const ops hundred) \<rparr> \<rparr>"

text \<open>The method \<^verbatim>\<open>(z *ZREPORT) RoundOff\<close>.\<close>

definition ZREPORT_RoundOff :: "('f, 'm) float64_scheme \<Rightarrow> 'f ZREPORT \<Rightarrow> 'f ZREPORT" where
  "ZREPORT_RoundOff ops z =
     (let round2 = (\<lambda>x. f64_quo ops (math_Round ops (f64_mul ops x (f64_const ops 100)))
                          (f64_const ops 100))
      in z\<lparr> ZREPORT.TOTALS :=
             (ZREPORT.TOTALS z)
               \<lparr> DAILYTOTALAMOUNT := round2 (DAILYTOTALAMOUNT (ZREPORT.TOTALS z)),
                 GROSS := round2 (GROSS (ZREPORT.TOTALS z)),
                 CORRECTIONS := round2 (CORRECTIONS (ZREPORT.TOTALS z)),
                 DISCOUNTS := round2 (DISCOUNTS (ZREPORT.TOTALS z)),
                 SURCHARGES := round2 (SURCHARGES (ZREPORT.TOTALS z)),
                 TICKETSVOIDTOTAL := round2 (TICKETSVOIDTOTAL (ZREPORT.TOTALS z)) \<rparr> \<rparr>)"

section \<open>receipt.go: building and signing a receipt\<close>

definition generateReceipt ::
  "('f, 'm) stdlib_scheme \<Rightarrow> ReceiptParams \<Rightarrow> Customer \<Rightarrow> 'f Item list \<Rightarrow> 'f Payment list \<Rightarrow> 'f RCT" where
  "generateReceipt rt params customer items payments =
     (let rctPayments =
            map (\<lambda>payment. \<lparr> PMTTYPE = Payment.Type payment,
                               PMTAMOUNT = Sprintf_2f rt (Amount payment) \<rparr>) payments;
          RESULTS = ProcessItems rt items;
          RECEIPT =
            \<lparr> RCT.DATE = ReceiptParams.Date params,
              RCT.TIME = ReceiptParams.Time params,
              RCT.TIN = ReceiptParams.TIN params,
              RCT.REGID = ReceiptParams.RegistrationID params,
              RCT.EFDSERIAL = ReceiptParams.EFDSerial params,
              RCT.CUSTIDTYPE = Customer.Type customer,
              RCT.CUSTID = Customer.ID customer,
              RCT.CUSTNAME = Customer.Name customer,
              RCT.MOBILENUM = Customer.Mobile customer,
              RCT.RCTNUM = ReceiptNum params,
              RCT.DC = DailyCounter params,
              RCT.GC = GlobalCounter params,
              RCT.ZNUM = ZNum params,
              RCT.RCTVNUM = ReceiptVNum params,
              RCT.ITEMS = ItemProcessResponse.ITEMS RESULTS,
              RCT.TOTALS = ItemProcessResponse.TOTALS RESULTS,
              RCT.PAYMENTS = rctPayments,
              RCT.VATTOTALS = ItemProcessResponse.VATTOTALS RESULTS \<rparr>
      in RCT_RoundOff rt RECEIPT)"

definition ReceiptBytes ::
  "('k, 'p) crypto \<Rightarrow> ('f, 'm) stdlib_scheme \<Rightarrow> 'k \<Rightarrow> ReceiptParams \<Rightarrow> Customer \<Rightarrow>
   'f Item list \<Rightarrow> 'f Payment list \<Rightarrow> go_error + string" where
  "ReceiptBytes c rt privateKey params customer items payments =
     (let receipt = generateReceipt rt params customer items payments
      in case xml_Marshal_RCT rt receipt of
           Inl err \<Rightarrow> Inl (WrapError ''could not marshal receipt: '' err)
         | Inr marshalled \<Rightarrow>
             (let receiptBytes =
                    strings_Replace rt
                      [''<PAYMENT>'', [], ''</PAYMENT>'', [], ''<VATTOTAL>'', [],
                       ''</VATTOTAL>'', []] marshalled
              in case Sign c privateKey receiptBytes of
                   Inl err \<Rightarrow> Inl (WrapError ''could not sign receipt: '' err)
                 | Inr signedReceipt \<Rightarrow>
                     (let base64SignedReceipt = encodeBase64Bytes c signedReceipt;
                          receiptString = receiptBytes;
                          report = ''<EFDMS>'' @ receiptString @ ''<EFDMSSIGNATURE>'' @
                                   base64SignedReceipt @ ''</EFDMSSIGNATURE></EFDMS>''
                      in Inr (xml_Header @ report))))"

section \<open>report.go: aggregating and building a Z report\<close>

definition AsList :: "('f, 'm) stdlib_scheme \<Rightarrow> Address \<Rightarrow> string list" where
  "AsList rt lines =
     [strings_ToUpper rt (Address.Name lines),
      strings_ToUpper rt (Street lines),
      ''MOBILE: '' @ Address.Mobile lines,
      strings_ToUpper rt (City lines @ '','' @ Country lines)]"

text \<open>
  A Go map that is only read and written by key is a partial function. Reading a key
  that is missing gives the zero value of the element type: for the anonymous struct of
  \<^verbatim>\<open>sumVatTotals\<close> (a pair of net and tax amount here) both fields are the float64
  zero, for \<^verbatim>\<open>sumPayments\<close> it is the float64 zero.
\<close>

definition vatTotalMap_index ::
  "('f, 'm) float64_scheme \<Rightarrow> (string \<rightharpoonup> 'f \<times> 'f) \<Rightarrow> string \<Rightarrow> 'f \<times> 'f" where
  "vatTotalMap_index ops m k =
     (case m k of None \<Rightarrow> (f64_const ops 0, f64_const ops 0) | Some v \<Rightarrow> v)"

definition paymentMap_index ::
  "('f, 'm) float64_scheme \<Rightarrow> (string \<rightharpoonup> 'f) \<Rightarrow> string \<Rightarrow> 'f" where
  "paymentMap_index ops m k = (case m k of None \<Rightarrow> f64_const ops 0 | Some v \<Rightarrow> v)"

text \<open>The loop of \<^verbatim>\<open>sumVatTotals\<close> over the supplied entries.\<close>

fun sumVatTotals_loop ::
  "('f, 'm) stdlib_scheme \<Rightarrow> 'f VATTOTAL list \<Rightarrow> (string \<rightharpoonup> 'f \<times> 'f) \<Rightarrow> (string \<rightharpoonup> 'f \<times> 'f)" where
  "sumVatTotals_loop rt [] vatTotalMap = vatTotalMap"
| "sumVatTotals_loop rt (vat # vats) vatTotalMap =
     (let rate = VATTOTAL.ID vat @ ''-'' @ Sprintf_2f rt (Rate vat)
      in sumVatTotals_loop rt vats
           (vatTotalMap(rate \<mapsto>
              (f64_add rt (fst (vatTotalMap_index rt vatTotalMap rate)) (VATTOTAL.NetAmount vat),
               f64_add rt (snd (vatTotalMap_index rt vatTotalMap rate)) (TaxAmount vat)))))"

definition sumVatTotals :: "('f, 'm) stdlib_scheme \<Rightarrow> 'f VATTOTAL list \<Rightarrow> models_VATTOTAL list" where
  "sumVatTotals rt vats =
     (let vatTotalMap =
            sumVatTotals_loop rt vats
              [''A-18.00'' \<mapsto> (f64_const rt 0, f64_const rt 0),
               ''B-0.00'' \<mapsto> (f64_const rt 0, f64_const rt 0),
               ''C-0.00'' \<mapsto> (f64_const rt 0, f64_const rt 0),
               ''D-0.00'' \<mapsto> (f64_const rt 0, f64_const rt 0),
               ''E-0.00'' \<mapsto> (f64_const rt 0, f64_const rt 0)]
      in [\<lparr> models_VATTOTAL.VATRATE = ''A-18.00'',
            models_VATTOTAL.NETTAMOUNT = Sprintf_2f rt (fst (vatTotalMap_index rt vatTotalMap ''A-18.00'')),
            models_VATTOTAL.TAXAMOUNT = Sprintf_2f rt (snd (vatTotalMap_index rt vatTotalMap ''A-18.00'')) \<rparr>,
          \<lparr> models_VATTOTAL.VATRATE = ''B-0.00'',
            models_VATTOTAL.NETTAMOUNT = Sprintf_2f rt (fst (vatTotalMap_index rt vatTotalMap ''B-0.00'')),
            models_VATTOTAL.TAXAMOUNT = Sprintf_2f rt (snd (vatTotalMap_index rt vatTotalMap ''B-0.00'')) \<rparr>,
          \<lparr> models_VATTOTAL.VATRATE = ''C-0.00'',
            models_VATTOTAL.NETTAMOUNT = Sprintf_2f rt (fst (vatTotalMap_index rt vatTotalMap ''C-0.00'')),
            models_VATTOTAL.TAXAMOUNT = Sprintf_2f rt (snd (vatTotalMap_index rt vatTotalMap ''C-0.00'')) \<rparr>,
          \<lparr> models_VATTOTAL.VATRATE = ''D-0.00'',
            models_VATTOTAL.NETTAMOUNT = Sprintf_2f rt (fst (vatTotalMap_index rt vatTotalMap ''D-0.00'')),
            models_VATTOTAL.TAXAMOUNT = Sprintf_2f rt (snd (vatTotalMap_index rt vatTotalMap ''D-0.00'')) \<rparr>,
          \<lparr> models_VATTOTAL.VATRATE = ''E-0.00'',
            models_VATTOTAL.NETTAMOUNT = Sprintf_2f rt (fst (vatTotalMap_index rt vatTotalMap ''E-0.00'')),
            models_VATTOTAL.TAXAMOUNT = Sprintf_2f rt (snd (vatTotalMap_index rt vatTotalMap ''E-0.00'')) \<rparr>])"

text \<open>The loop of \<^verbatim>\<open>sumPayments\<close> over the supplied payments.\<close>

fun sumPayments_loop ::
  "('f, 'm) float64_scheme \<Rightarrow> 'f Payment list \<Rightarrow> (string \<rightharpoonup> 'f) \<Rightarrow> (string \<rightharpoonup> 'f)" where
  "sumPayments_loop ops [] paymentMap = paymentMap"
| "sumPayments_loop ops (p # payments) paymentMap =
     (let pType = Payment.Type p
      in sumPayments_loop ops payments
           (paymentMap(pType \<mapsto> f64_add ops (paymentMap_index ops paymentMap pType) (Amount p))))"

definition sumPayments :: "('f, 'm) stdlib_scheme \<Rightarrow> 'f Payment list \<Rightarrow> PAYMENT list" where
  "sumPayments rt payments =
     (let paymentMap =
            sumPayments_loop rt payments
              [''CASH'' \<mapsto> f64_const rt 0,
               ''CHEQUE'' \<mapsto> f64_const rt 0,
               ''CCARD'' \<mapsto> f64_const rt 0,
               ''EMONEY'' \<mapsto> f64_const rt 0,
               ''INVOICE'' \<mapsto> f64_const rt 0]
      in [\<lparr> PMTTYPE = ''CASH'',
            PMTAMOUNT = Sprintf_2f rt (paymentMap_index rt paymentMap ''CASH'') \<rparr>,
          \<lparr> PMTTYPE = ''CHEQUE'',
            PMTAMOUNT = Sprintf_2f rt (paymentMap_index rt paymentMap ''CHEQUE'') \<rparr>,
          \<lparr> PMTTYPE = ''CCARD'',
            PMTAMOUNT = Sprintf_2f rt (paymentMap_index rt paymentMap ''CCARD'') \<rparr>,
          \<lparr> PMTTYPE = ''EMONEY'',
            PMTAMOUNT = Sprintf_2f rt (paymentMap_index rt paymentMap ''EMONEY'') \<rparr>,
          \<lparr> PMTTYPE = ''INVOICE'',
            PMTAMOUNT = Sprintf_2f rt (paymentMap_index rt paymentMap ''INVOICE'') \<rparr>])"

text \<open>
  \<^verbatim>\<open>generateZReport\<close>. Its parameter \<^verbatim>\<open>params\<close> is a pointer in the source; the
  model takes the struct it points to. The call \<^verbatim>\<open>report.RoundOff()\<close> before the
  \<^verbatim>\<open>return\<close> is commented out in the source, so the report is returned as assembled.
\<close>

definition generateZReport ::
  "('f, 'm) stdlib_scheme \<Rightarrow> ReportParams \<Rightarrow> Address \<Rightarrow> 'f VATTOTAL list \<Rightarrow> 'f Payment list \<Rightarrow>
   'f ReportTotals \<Rightarrow> 'f ZREPORT" where
  "generateZReport rt params address vats payments totals =
     (let vPAYMENTS = sumPayments rt payments;
          vVATTOTALS = sumVatTotals rt vats;
          TT = \<lparr> DAILYTOTALAMOUNT = DailyTotalAmount totals,
                 GROSS = Gross totals,
                 CORRECTIONS = Corrections totals,
                 DISCOUNTS = Discounts totals,
                 SURCHARGES = Surcharges totals,
                 TICKETSVOID = TicketsVoid totals,
                 TICKETSVOIDTOTAL = TicketsVoidTotal totals,
                 TICKETSFISCAL = TicketsFiscal totals,
                 TICKETSNONFISCAL = TicketsNonFiscal totals \<rparr>;
          report =
            \<lparr> ZREPORT.DATE = ReportParams.Date params,
              ZREPORT.TIME = ReportParams.Time params,
              ZREPORT.HEADER = AsList rt address,
              ZREPORT.VRN = ReportParams.VRN params,
              ZREPORT.TIN = ReportParams.TIN params,
              ZREPORT.TAXOFFICE = TaxOffice params,
              ZREPORT.REGID = ReportParams.RegistrationID params,
              ZREPORT.ZNUMBER = ZNumber params,
              ZREPORT.EFDSERIAL = ReportParams.EFDSerial params,
              ZREPORT.REGISTRATIONDATE = RegistrationDate params,
              ZREPORT.USER = UIN params,
              ZREPORT.SIMIMSI = ''WEBAPI'',
              ZREPORT.TOTALS = TT,
              ZREPORT.VATTOTALS = vVATTOTALS,
              ZREPORT.PAYMENTS = vPAYMENTS,
              ZREPORT.CHANGES = \<lparr> VATCHANGENUM = ''0'', HEADCHANGENUM = ''0'' \<rparr>,
              ZREPORT.ERRORS = [],
              ZREPORT.FWVERSION = ''3.0'',
              ZREPORT.FWCHECKSUM = ''WEBAPI'' \<rparr>
      in report)"

definition formatReportXmlPayload ::
  "('f, 'm) stdlib_scheme \<Rightarrow> string \<Rightarrow> 'f ReportTotals \<Rightarrow> 'f VATTOTAL list \<Rightarrow> 'f Payment list \<Rightarrow> string" where
  "formatReportXmlPayload rt payload totals vats payments =
     (let replaceList = [''<PAYMENT>'', [], ''</PAYMENT>'', [], ''<VATTOTAL>'', [],
                         ''</VATTOTAL>'', []];
          payloadString = strings_Replace rt replaceList payload;
          regexDailyAmount = ''<DAILYTOTALAMOUNT>.*</DAILYTOTALAMOUNT>'';
          regexGrossAmount = ''<GROSS>.*</GROSS>'';
          dailyAmountTag = ''<DAILYTOTALAMOUNT>'' @ Sprintf_2f rt (DailyTotalAmount totals) @
                           ''</DAILYTOTALAMOUNT>'';
          grossAmountTag = ''<GROSS>'' @ Sprintf_2f rt (Gross totals) @ ''</GROSS>'';
          payloadString1 = regexp_ReplaceAllString rt regexDailyAmount payloadString dailyAmountTag;
          payloadString2 = regexp_ReplaceAllString rt regexGrossAmount payloadString1 grossAmountTag
      in payloadString2)"

definition ReportBytes ::
  "('k, 'p) crypto \<Rightarrow> ('f, 'm) stdlib_scheme \<Rightarrow> 'k \<Rightarrow> ReportParams \<Rightarrow> Address \<Rightarrow>
   'f VATTOTAL list \<Rightarrow> 'f Payment list \<Rightarrow> 'f ReportTotals \<Rightarrow> go_error + string" where
  "ReportBytes c rt privateKey params address vats payments totals =
     (let zReport = generateZReport rt params address vats payments totals
      in case xml_Marshal_ZREPORT rt zReport of
           Inl err \<Rightarrow> Inl (WrapError ''failed to marshal the report: '' err)
         | Inr payload \<Rightarrow>
             (let payloadString = formatReportXmlPayload rt payload totals vats payments
              in case SignPayload c privateKey payloadString of
                   Inl err \<Rightarrow> Inl (WrapError ''failed to sign the payload: '' err)
                 | Inr signedPayload \<Rightarrow>
                     (let base64PayloadSignature = encodeBase64Bytes c signedPayload;
                          report = ''<EFDMS>'' @ payloadString @ ''<EFDMSSIGNATURE>'' @
                                   base64PayloadSignature @ ''</EFDMSSIGNATURE></EFDMS>''
                      in Inr (xml_Header @ report))))"

section \<open>errors.go: network errors\<close>

text \<open>
  \<^verbatim>\<open>IsNetworkError\<close> is \<^verbatim>\<open>errors.As\<close> with a target of type \<^verbatim>\<open>*NetworkError\<close>: it
  follows the chain of \<^verbatim>\<open>Unwrap\<close> until it meets a \<^verbatim>\<open>*NetworkError\<close>.
\<close>

fun IsNetworkError :: "go_error \<Rightarrow> bool" where
  "IsNetworkError (NetworkError e msg) = True"
| "IsNetworkError (WrapError prefix e) = IsNetworkError e"
| "IsNetworkError (NetErr msg (Some e)) = IsNetworkError e"
| "IsNetworkError (NetErr msg None) = False"
| "IsNetworkError ContextCanceled = False"
| "IsNetworkError ContextDeadlineExceeded = False"
| "IsNetworkError (ErrorString msg) = False"

text \<open>The method \<^verbatim>\<open>(e *NetworkError) Unwrap\<close>, and \<^verbatim>\<open>errors.Unwrap\<close> on the other kinds.\<close>

fun Unwrap :: "go_error \<Rightarrow> go_error option" where
  "Unwrap (NetworkError e msg) = e"
| "Unwrap (WrapError prefix e) = Some e"
| "Unwrap (NetErr msg e) = e"
| "Unwrap ContextCanceled = None"
| "Unwrap ContextDeadlineExceeded = None"
| "Unwrap (ErrorString msg) = None"

text \<open>The type assertion \<^verbatim>\<open>err.(net.Error)\<close>.\<close>

fun is_net_Error :: "go_error \<Rightarrow> bool" where
  "is_net_Error (NetErr msg e) = True"
| "is_net_Error ContextDeadlineExceeded = True"
| "is_net_Error e = False"

text \<open>
  \<^verbatim>\<open>checkNetworkError\<close>; its first argument is what \<^verbatim>\<open>ctx.Err()\<close> returns (nil while the
  context is live, \<^verbatim>\<open>context.Canceled\<close> or \<^verbatim>\<open>context.DeadlineExceeded\<close> afterwards).
\<close>

definition checkNetworkError :: "go_error option \<Rightarrow> string \<Rightarrow> go_error option \<Rightarrow> go_error option" where
  "checkNetworkError ctx_Err prefix err =
     (case err of
        None \<Rightarrow> None
      | Some e \<Rightarrow>
          if ctx_Err \<noteq> None \<or> e = ContextCanceled \<or> e = ContextDeadlineExceeded
          then Some (NetworkError ctx_Err
                       (prefix @ '': context error (canceled or deadline exceeded)''))
          else if is_net_Error e
          then Some (NetworkError (Some e) (prefix @ '': network error''))
          else Some (WrapError (prefix @ '': '') e))"

section \<open>receipt.go, report.go: submission\<close>

text \<open>
  What lies outside the package during one submission:
  \<^item> \<open>NewRequestWithContext method url body\<close> is the result of
    \<^verbatim>\<open>http.NewRequestWithContext\<close> (it fails on a URL that does not parse);
  \<^item> \<open>client_Do req\<close> is the result of \<^verbatim>\<open>client.Do(req)\<close>: an error, or a response
    with its status code and with what \<^verbatim>\<open>io.ReadAll(resp.Body)\<close> will give;
  \<^item> \<open>ctx_Err\<close> is what \<^verbatim>\<open>newContext.Err()\<close> returns once \<^verbatim>\<open>client.Do\<close> has
    returned. The derived context is canceled by the deferred \<^verbatim>\<open>cancel()\<close> only when
    the function returns, so before that it is done exactly when the caller's context is.
\<close>

record Request =
  Method :: string
  URL :: string
  Header :: "(string \<times> string) list"
  Body :: string

datatype http_result =
    DoError go_error
  | DoResponse int "go_error + string"

record exchange =
  NewRequestWithContext :: "string \<Rightarrow> string \<Rightarrow> string \<Rightarrow> go_error + Request"
  client_Do :: "Request \<Rightarrow> http_result"
  ctx_Err :: "go_error option"

definition Header_Set :: "string \<Rightarrow> string \<Rightarrow> Request \<Rightarrow> Request" where
  "Header_Set key val req = req\<lparr> Header := AList.update key val (Header req) \<rparr>"

definition encodeBase64String :: "('k, 'p) crypto \<Rightarrow> string \<Rightarrow> string" where
  "encodeBase64String c val = base64_EncodeToString c val"

definition ContentTypeXML :: string where "ContentTypeXML = ''application/xml''"
definition SubmitReceiptRoutingKey :: string where "SubmitReceiptRoutingKey = ''vfdrct''"
definition SubmitReportRoutingKey :: string where "SubmitReportRoutingKey = ''vfdzreport''"

text \<open>
  The four calls of \<^verbatim>\<open>req.Header.Set\<close>, which \<^verbatim>\<open>submitReceipt\<close> and \<^verbatim>\<open>submitReport\<close>
  make in the same order and which differ in the routing key only.
\<close>

definition set_headers :: "('k, 'p) crypto \<Rightarrow> string \<Rightarrow> string \<Rightarrow> string \<Rightarrow> Request \<Rightarrow> Request" where
  "set_headers c routingKey certSerial bearerToken req =
     Header_Set ''Authorization'' (''bearer '' @ bearerToken)
       (Header_Set ''Cert-Serial'' (encodeBase64String c certSerial)
          (Header_Set ''Routing-Key'' routingKey
             (Header_Set ''Content-Type'' ContentTypeXML req)))"

record 'f ReceiptRequest =
  Params :: ReceiptParams
  Customer :: Customer
  Items :: "'f Item list"
  Payments :: "'f Payment list"

record 'f ReportRequest =
  Params :: ReportParams
  Address :: Address
  Totals :: "'f ReportTotals"
  VATS :: "'f VATTOTAL list"
  Payment :: "'f Payment list"

text \<open>
  \<^verbatim>\<open>submitReceipt\<close> returns a pair \<^verbatim>\<open>(*Response, error)\<close>; nil is \<open>None\<close>. The message
  of \<^verbatim>\<open>ErrReceiptUploadFailed\<close> is \<^verbatim>\<open>receipt upload failed\<close>, and it is formatted with
  \<^verbatim>\<open>%v\<close>, as text, so that only the second error is wrapped.
\<close>

definition submitReceipt ::
  "('k, 'p) crypto \<Rightarrow> ('f, 'm) stdlib_scheme \<Rightarrow> exchange \<Rightarrow> string \<Rightarrow> RequestHeaders \<Rightarrow> 'k \<Rightarrow>
   'f ReceiptRequest \<Rightarrow> Response option \<times> go_error option" where
  "submitReceipt c rt ex requestURL headers privateKey rct =
     (let certSerial = CertSerial headers;
          bearerToken = BearerToken headers
      in case ReceiptBytes c rt privateKey (ReceiptRequest.Params rct) (ReceiptRequest.Customer rct)
                (Items rct) (Payments rct) of
           Inl err \<Rightarrow> (None, Some (WrapError ''receipt upload failed : '' err))
         | Inr payload \<Rightarrow>
             (case NewRequestWithContext ex ''POST'' requestURL payload of
                Inl err \<Rightarrow> (None, Some err)
              | Inr req0 \<Rightarrow>
                  (let req = set_headers c SubmitReceiptRoutingKey certSerial bearerToken req0
                   in case client_Do ex req of
                        DoError err \<Rightarrow>
                          (None, checkNetworkError (ctx_Err ex) ''receipt upload'' (Some err))
                      | DoResponse StatusCode body \<Rightarrow>
                          (case body of
                             Inl err \<Rightarrow> (None, Some (WrapError ''receipt upload failed : '' err))
                           | Inr out \<Rightarrow>
                               if StatusCode = 500
                               then (case xml_Decode_Error rt out of
                                       Inl err \<Rightarrow>
                                         (None, Some (WrapError ''receipt upload failed : '' err))
                                     | Inr errBody_Message \<Rightarrow>
                                         (None, Some (ErrorString
                                            (''registration error: '' @ errBody_Message))))
                               else (case xml_Decode_RCTACKEFDMS rt out of
                                       Inl err \<Rightarrow>
                                         (None, Some (WrapError ''receipt upload failed : '' err))
                                     | Inr ack \<Rightarrow>
                                         (Some \<lparr> Number = RCTACK.RCTNUM ack,
                                                  Response.Date = RCTACK.DATE ack,
                                                  Response.Time = RCTACK.TIME ack,
                                                  Code = RCTACK.ACKCODE ack,
                                                  Message = RCTACK.ACKMSG ack \<rparr>, None))))))"

text \<open>
  \<^verbatim>\<open>submitReport\<close>; the pointers \<^verbatim>\<open>report.Params\<close>, \<^verbatim>\<open>report.Address\<close> and
  \<^verbatim>\<open>report.Totals\<close> are the structs they point to. The message of
  \<^verbatim>\<open>ErrReportSubmitFailed\<close> is \<^verbatim>\<open>report submit failed\<close>.
\<close>

definition submitReport ::
  "('k, 'p) crypto \<Rightarrow> ('f, 'm) stdlib_scheme \<Rightarrow> exchange \<Rightarrow> string \<Rightarrow> RequestHeaders \<Rightarrow> 'k \<Rightarrow>
   'f ReportRequest \<Rightarrow> Response option \<times> go_error option" where
  "submitReport c rt ex requestURL headers privateKey report =
     (let certSerial = CertSerial headers;
          bearerToken = BearerToken headers
      in case ReportBytes c rt privateKey (ReportRequest.Params report) (ReportRequest.Address report)
                (VATS report) (ReportRequest.Payment report) (Totals report) of
           Inl err \<Rightarrow> (None, Some (WrapError ''failed to generate the report payload: '' err))
         | Inr payload \<Rightarrow>
             (case NewRequestWithContext ex ''POST'' requestURL payload of
                Inl err \<Rightarrow> (None, Some err)
              | Inr req0 \<Rightarrow>
                  (let req = set_headers c SubmitReportRoutingKey certSerial bearerToken req0
                   in case client_Do ex req of
                        DoError err \<Rightarrow>
                          (None, checkNetworkError (ctx_Err ex) ''submit report'' (Some err))
                      | DoResponse StatusCode body \<Rightarrow>
                          (case body of
                             Inl err \<Rightarrow> (None, Some (WrapError ''report submit failed : '' err))
                           | Inr out \<Rightarrow>
                               if StatusCode = 500
                               then (case xml_Decode_Error rt out of
                                       Inl err \<Rightarrow>
                                         (None, Some (WrapError ''report submit failed : '' err))
                                     | Inr errBody_Message \<Rightarrow>
                                         (None, Some (ErrorString
                                            (''registration error: '' @ errBody_Message))))
                               else (case xml_Decode_ReportAckEFDMS rt out of
                                       Inl err \<Rightarrow>
                                         (None, Some (WrapError ''report submit failed : '' err))
                                     | Inr ack \<Rightarrow>
                                         (Some \<lparr> Number = ZACK.ZNUMBER ack,
                                                  Response.Date = ZACK.DATE ack,
                                                  Response.Time = ZACK.TIME ack,
                                                  Code = ZACK.ACKCODE ack,
                                                  Message = ZACK.ACKMSG ack \<rparr>, None))))))"

section \<open>An instance of the library parameters in exact arithmetic\<close>

text \<open>
  To run the definitions on concrete inputs, the parameters are instantiated over the
  rationals: constants and the four operations are exact, \<^verbatim>\<open>math.Round\<close> rounds half
  away from zero as in Go, and \<^verbatim>\<open>%.2f\<close> prints the nearest decimal with two places
  (ties to the even digit). This instance is used for examples only; every general
  theorem below is stated for an arbitrary instance.
\<close>

definition round_half_away :: "rat \<Rightarrow> int" where
  "round_half_away x = (if 0 \<le> x then \<lfloor>x + 1 / 2\<rfloor> else - \<lfloor>- x + 1 / 2\<rfloor>)"

definition exact_float64 :: "rat float64" where
  "exact_float64 =
     \<lparr> f64_const = (\<lambda>q. q),
       f64_add = (\<lambda>x y. x + y),
       f64_sub = (\<lambda>x y. x - y),
       f64_mul = (\<lambda>x y. x * y),
       f64_quo = (\<lambda>x y. x / y),
       math_Round = (\<lambda>x. of_int (round_half_away x)) \<rparr>"

definition digit :: "int \<Rightarrow> char" where
  "digit n = ''0123456789'' ! nat n"

function itoa :: "int \<Rightarrow> string" where
  "itoa n = (if n < 10 then [digit n] else itoa (n div 10) @ [digit (n mod 10)])"
  by pat_completeness auto
termination
  by (relation "measure nat") auto

declare itoa.simps [simp del]

definition round_half_even :: "rat \<Rightarrow> int" where
  "round_half_even y =
     (let f = \<lfloor>y\<rfloor>; r = y - of_int f
      in if r < 1 / 2 then f else if 1 / 2 < r then f + 1 else if even f then f else f + 1)"

definition exact_Sprintf_2f :: "rat \<Rightarrow> string" where
  "exact_Sprintf_2f x =
     (let c = round_half_even (\<bar>x\<bar> * 100);
          s = itoa (c div 100) @ ''.'' @ [digit (c mod 100 div 10), digit (c mod 10)]
      in if x < 0 then ''-'' @ s else s)"

definition ascii_ToUpper :: "string \<Rightarrow> string" where
  "ascii_ToUpper s =
     map (\<lambda>ch. let n = of_char ch :: nat in if 97 \<le> n \<and> n \<le> 122 then char_of (n - 32) else ch) s"

text \<open>
  A replacer for argument lists \<open>[old\<^sub>1, new\<^sub>1, old\<^sub>2, new\<^sub>2, \<dots>]\<close> with non-empty old
  strings: at each position the first old string that matches, in argument order, is
  replaced, and the scan goes on behind the match.
\<close>

fun replacer_match :: "string list \<Rightarrow> string \<Rightarrow> (string \<times> nat) option" where
  "replacer_match (old # new # args) s =
     (if old \<noteq> [] \<and> take (length old) s = old then Some (new, length old)
      else replacer_match args s)"
| "replacer_match args s = None"

fun replacer_scan :: "string list \<Rightarrow> nat \<Rightarrow> string \<Rightarrow> string" where
  "replacer_scan args n [] = []"
| "replacer_scan args (Suc n) (ch # s) = replacer_scan args n s"
| "replacer_scan args 0 (ch # s) =
     (case replacer_match args (ch # s) of
        Some (new, Suc n) \<Rightarrow> new @ replacer_scan args n s
      | _ \<Rightarrow> ch # replacer_scan args 0 s)"

text \<open>
  A decoder for the error envelope of the authority, \<^verbatim>\<open>models.Error\<close>: a body that is
  the element \<^verbatim>\<open>Error\<close> with the one child \<^verbatim>\<open>Message\<close>, whose text has no markup and
  no entity, decodes to that text. On every other body this decoder gives up with
  \<^verbatim>\<open>EOF\<close>, which is what \<^verbatim>\<open>encoding/xml\<close> returns for a body with no element at all.
\<close>

definition decode_Error_envelope :: "string \<Rightarrow> go_error + string" where
  "decode_Error_envelope body =
     (let opening = ''<Error><Message>'';
          closing = ''</Message></Error>'';
          message = take (length body - length opening - length closing)
                      (drop (length opening) body)
      in if body = opening @ message @ closing \<and> CHR ''<'' \<notin> set message \<and>
            CHR ''&'' \<notin> set message
         then Inr message
         else Inl (ErrorString ''EOF''))"

definition exact_stdlib :: "rat stdlib" where
  "exact_stdlib =
     float64.extend exact_float64
       (stdlib.fields exact_Sprintf_2f ascii_ToUpper
          (\<lambda>args s. replacer_scan args 0 s)
          (\<lambda>re src repl. src)
          rev
          (\<lambda>r. Inr (''<RCT><DATE>'' @ RCT.DATE r @ ''</DATE><PAYMENTS>'' @
                    concat (map (\<lambda>p. ''<PAYMENT><PMTTYPE>'' @ PMTTYPE p @ ''</PMTTYPE><PMTAMOUNT>'' @
                                      PMTAMOUNT p @ ''</PMTAMOUNT></PAYMENT>'') (RCT.PAYMENTS r)) @
                    ''</PAYMENTS></RCT>''))
          (\<lambda>z. Inr (''<ZREPORT><DATE>'' @ ZREPORT.DATE z @ ''</DATE><PAYMENTS>'' @
                    concat (map (\<lambda>p. ''<PAYMENT><PMTTYPE>'' @ PMTTYPE p @ ''</PMTTYPE><PMTAMOUNT>'' @
                                      PMTAMOUNT p @ ''</PMTAMOUNT></PAYMENT>'')
                              (take 1 (ZREPORT.PAYMENTS z))) @
                    ''</PAYMENTS></ZREPORT>''))
          decode_Error_envelope
          (\<lambda>body. if body = [] then Inl (ErrorString ''EOF'')
                   else Inr \<lparr> RCTACK.RCTNUM = 1, RCTACK.DATE = ''2022-11-17'',
                              RCTACK.TIME = ''14:00:00'', RCTACK.ACKCODE = 0,
                              RCTACK.ACKMSG = body \<rparr>)
          (\<lambda>body. if body = [] then Inl (ErrorString ''EOF'')
                   else Inr \<lparr> ZACK.ZNUMBER = 1, ZACK.DATE = ''2022-11-17'',
                              ZACK.TIME = ''14:00:00'', ZACK.ACKCODE = 0,
                              ZACK.ACKMSG = body \<rparr>))"

section \<open>The instance of the float64 operations in IEEE 754 binary64\<close>




text \<open>
  \<open>bitlen n\<close> is the number of binary digits of a positive integer, and \<open>ilog2 r\<close> the
  exponent of a positive rational: the integer \<open>e\<close> with \<open>2\<^sup>e \<le> r < 2\<^sup>e\<^sup>+\<^sup>1\<close>.
\<close>

function bitlen :: "int \<Rightarrow> int" where
  "bitlen n = (if n \<le> 0 then 0 else 1 + bitlen (n div 2))"
  by pat_completeness auto
termination
  by (relation "measure nat") auto

declare bitlen.simps [simp del]

definition ilog2 :: "rat \<Rightarrow> int" where
  "ilog2 r =
     (case quotient_of r of
        (p, q) \<Rightarrow> let d = bitlen p - bitlen q in if 2 powi d \<le> r then d else d - 1)"












section \<open>Example inputs\<close>

text \<open>
  A receipt and a Z report on which the definitions are run below, and three courses
  that the HTTP exchange of a submission can take: \<^verbatim>\<open>client.Do\<close> fails after the
  context was canceled; the authority answers with status 500 and an error body; the
  response arrives but reading its body fails because the context was canceled.
\<close>

definition demo_receipt :: "rat ReceiptRequest" where
  "demo_receipt =
     \<lparr> ReceiptRequest.Params =
         \<lparr> ReceiptParams.Date = ''2022-11-17'', ReceiptParams.Time = ''14:00:00'',
           ReceiptParams.TIN = ''TQR6W5FWC'', ReceiptParams.RegistrationID = ''262T3FSSS'',
           ReceiptParams.EFDSerial = ''SGSYSTHSSJ'', ReceiptNum = [], DailyCounter = 1,
           GlobalCounter = 100, ZNum = [], ReceiptVNum = [] \<rparr>,
       ReceiptRequest.Customer =
         \<lparr> Customer.Type = 5, Customer.ID = ''516221638383907151'',
           Customer.Name = ''John doe'', Customer.Mobile = ''255765992153'' \<rparr>,
       Items =
         [\<lparr> Item.ID = ''1'', Description = ''Item 1'', TaxCode = 1, Quantity = 5,
            UnitPrice = 2000, Discount = 5000 \<rparr>,
          \<lparr> Item.ID = ''2'', Description = ''Item 2'', TaxCode = 3, Quantity = 3,
            UnitPrice = 1 / 8, Discount = 0 \<rparr>],
       Payments = [\<lparr> Payment.Type = ''CASH'', Amount = 40003 / 8 \<rparr>] \<rparr>"

definition demo_report :: "rat ReportRequest" where
  "demo_report =
     \<lparr> ReportRequest.Params =
         \<lparr> ReportParams.Date = ''2022-11-17'', ReportParams.Time = ''23:59:00'',
           ReportParams.VRN = ''NOT REGISTERED'', ReportParams.TIN = ''TQR6W5FWC'',
           UIN = ''U1'', TaxOffice = ''Ilala'', ReportParams.RegistrationID = ''262T3FSSS'',
           ZNumber = ''20221117'', ReportParams.EFDSerial = ''SGSYSTHSSJ'',
           RegistrationDate = ''2022-01-01'' \<rparr>,
       ReportRequest.Address =
         \<lparr> Address.Name = ''Shop'', Street = ''Street'', Address.Mobile = ''255765992153'',
           City = ''Dar'', Country = ''Tanzania'' \<rparr>,
       Totals =
         \<lparr> DailyTotalAmount = 5000, Gross = 5000, Corrections = 1 / 8, Discounts = 0,
           Surcharges = 0, TicketsVoid = 0, TicketsVoidTotal = 0, TicketsFiscal = 1,
           TicketsNonFiscal = 0 \<rparr>,
       VATS = [],
       ReportRequest.Payment = [\<lparr> Payment.Type = ''CASH'', Amount = 5000 \<rparr>] \<rparr>"

definition demo_headers :: RequestHeaders where
  "demo_headers = \<lparr> CertSerial = ''10 43 41 30'', BearerToken = ''token'' \<rparr>"

definition demo_NewRequest :: "string \<Rightarrow> string \<Rightarrow> string \<Rightarrow> go_error + Request" where
  "demo_NewRequest method url body =
     Inr \<lparr> Method = method, URL = url, Header = [], Body = body \<rparr>"

definition exchange_Do_canceled :: exchange where
  "exchange_Do_canceled =
     \<lparr> NewRequestWithContext = demo_NewRequest,
       client_Do = (\<lambda>req. DoError (NetErr ''Post: context canceled'' (Some ContextCanceled))),
       ctx_Err = Some ContextCanceled \<rparr>"

definition exchange_status_500 :: exchange where
  "exchange_status_500 =
     \<lparr> NewRequestWithContext = demo_NewRequest,
       client_Do =
         (\<lambda>req. DoResponse 500 (Inr ''<Error><Message>invalid signature</Message></Error>'')),
       ctx_Err = None \<rparr>"

definition exchange_body_canceled :: exchange where
  "exchange_body_canceled =
     \<lparr> NewRequestWithContext = demo_NewRequest,
       client_Do = (\<lambda>req. DoResponse 200 (Inl ContextCanceled)),
       ctx_Err = Some ContextCanceled \<rparr>"

section \<open>The exact instance, field by field\<close>

lemma exact_stdlib_fields:
  "f64_const exact_stdlib = (\<lambda>q. q)"
  "f64_add exact_stdlib = (\<lambda>x y. x + y)"
  "f64_sub exact_stdlib = (\<lambda>x y. x - y)"
  "f64_mul exact_stdlib = (\<lambda>x y. x * y)"
  "f64_quo exact_stdlib = (\<lambda>x y. x / y)"
  "math_Round exact_stdlib = (\<lambda>x. of_int (round_half_away x))"
  "map_range exact_stdlib = rev"
  "Sprintf_2f exact_stdlib = exact_Sprintf_2f"
  by (simp_all add: exact_stdlib_def exact_float64_def float64.extend_def stdlib.fields_def)

lemma exact_stdlib_codec_fields:
  "strings_ToUpper exact_stdlib = ascii_ToUpper"
  "strings_Replace exact_stdlib = (\<lambda>args s. replacer_scan args 0 s)"
  "regexp_ReplaceAllString exact_stdlib = (\<lambda>re src repl. src)"
  "xml_Decode_Error exact_stdlib = decode_Error_envelope"
  by (simp_all add: exact_stdlib_def exact_float64_def float64.extend_def stdlib.fields_def)

lemma demo_crypto_signs:
  "k \<noteq> [] \<Longrightarrow> k \<noteq> ''worn'' \<Longrightarrow> Sign demo_crypto k p = Inr (k @ rev p)"
  "k \<noteq> [] \<Longrightarrow> k \<noteq> ''worn'' \<Longrightarrow> SignPayload demo_crypto k p = Inr (k @ rev p)"
  by (simp_all add: Sign_def SignPayload_def signPayload_def verifySignature_def
        VerifySignature_def demo_crypto_def)

lemma exact_stdlib_marshal_fields:
  "\<exists>doc. xml_Marshal_RCT exact_stdlib r = Inr doc"
  "\<exists>doc. xml_Marshal_ZREPORT exact_stdlib z = Inr doc"
  by (simp_all add: exact_stdlib_def exact_float64_def float64.extend_def stdlib.fields_def)

section \<open>Properties of the Z-report aggregation\<close>

lemma sumVatTotals_loop_append:
  "sumVatTotals_loop rt (xs @ ys) m = sumVatTotals_loop rt ys (sumVatTotals_loop rt xs m)"
  by (induction xs arbitrary: m) (simp_all add: Let_def)

lemma sumVatTotals_loop_key_local:
  "m k = m' k \<Longrightarrow> sumVatTotals_loop rt vats m k = sumVatTotals_loop rt vats m' k"
proof (induction vats arbitrary: m m')
  case Nil
  then show ?case by simp
next
  case (Cons vat vats)
  let ?rate = "VATTOTAL.ID vat @ ''-'' @ Sprintf_2f rt (Rate vat)"
  let ?upd = "\<lambda>m. m(?rate \<mapsto>
      (f64_add rt (fst (vatTotalMap_index rt m ?rate)) (VATTOTAL.NetAmount vat),
       f64_add rt (snd (vatTotalMap_index rt m ?rate)) (TaxAmount vat)))"
  have "?upd m k = ?upd m' k"
    using Cons.prems by (auto simp: vatTotalMap_index_def)
  then have "sumVatTotals_loop rt vats (?upd m) k = sumVatTotals_loop rt vats (?upd m') k"
    by (rule Cons.IH)
  then show ?case by (simp add: Let_def)
qed

lemma sumVatTotals_loop_skip:
  assumes "VATTOTAL.ID vat @ ''-'' @ Sprintf_2f rt (Rate vat) \<noteq> k"
  shows "sumVatTotals_loop rt (vat # vats) m k = sumVatTotals_loop rt vats m k"
proof -
  let ?rate = "VATTOTAL.ID vat @ ''-'' @ Sprintf_2f rt (Rate vat)"
  let ?m' = "m(?rate \<mapsto>
      (f64_add rt (fst (vatTotalMap_index rt m ?rate)) (VATTOTAL.NetAmount vat),
       f64_add rt (snd (vatTotalMap_index rt m ?rate)) (TaxAmount vat)))"
  have "?m' k = m k" using assms by simp
  then have "sumVatTotals_loop rt vats ?m' k = sumVatTotals_loop rt vats m k"
    by (rule sumVatTotals_loop_key_local)
  then show ?thesis by (simp add: Let_def)
qed

lemma sumVatTotals_loop_untouched:
  "k \<notin> (\<lambda>vat. VATTOTAL.ID vat @ ''-'' @ Sprintf_2f rt (Rate vat)) ` set vats \<Longrightarrow>
   sumVatTotals_loop rt vats m k = m k"
proof (induction vats arbitrary: m)
  case Nil
  then show ?case by simp
next
  case (Cons vat vats)
  then have ne: "VATTOTAL.ID vat @ ''-'' @ Sprintf_2f rt (Rate vat) \<noteq> k"
    and rest: "k \<notin> (\<lambda>vat. VATTOTAL.ID vat @ ''-'' @ Sprintf_2f rt (Rate vat)) ` set vats"
    by auto
  show ?case
    using sumVatTotals_loop_skip [OF ne, of vats m] Cons.IH [OF rest, of m] by simp
qed

lemma sumVatTotals_loop_remove:
  assumes "VATTOTAL.ID vat @ ''-'' @ Sprintf_2f rt (Rate vat) \<noteq> k"
  shows "sumVatTotals_loop rt (xs @ vat # ys) m k = sumVatTotals_loop rt (xs @ ys) m k"
  using sumVatTotals_loop_skip [OF assms] by (simp add: sumVatTotals_loop_append)

lemma sumPayments_loop_append:
  "sumPayments_loop ops (xs @ ys) m = sumPayments_loop ops ys (sumPayments_loop ops xs m)"
  by (induction xs arbitrary: m) (simp_all add: Let_def)

lemma sumPayments_loop_key_local:
  "m k = m' k \<Longrightarrow> sumPayments_loop ops ps m k = sumPayments_loop ops ps m' k"
proof (induction ps arbitrary: m m')
  case Nil
  then show ?case by simp
next
  case (Cons p ps)
  let ?upd = "\<lambda>m. m(Payment.Type p \<mapsto>
      f64_add ops (paymentMap_index ops m (Payment.Type p)) (Amount p))"
  have "?upd m k = ?upd m' k"
    using Cons.prems by (auto simp: paymentMap_index_def)
  then have "sumPayments_loop ops ps (?upd m) k = sumPayments_loop ops ps (?upd m') k"
    by (rule Cons.IH)
  then show ?case by (simp add: Let_def)
qed

lemma sumPayments_loop_skip:
  assumes "Payment.Type p \<noteq> k"
  shows "sumPayments_loop ops (p # ps) m k = sumPayments_loop ops ps m k"
proof -
  let ?m' = "m(Payment.Type p \<mapsto>
      f64_add ops (paymentMap_index ops m (Payment.Type p)) (Amount p))"
  have "?m' k = m k" using assms by simp
  then have "sumPayments_loop ops ps ?m' k = sumPayments_loop ops ps m k"
    by (rule sumPayments_loop_key_local)
  then show ?thesis by (simp add: Let_def)
qed

lemma sumPayments_loop_untouched:
  "k \<notin> Payment.Type ` set ps \<Longrightarrow> sumPayments_loop ops ps m k = m k"
proof (induction ps arbitrary: m)
  case Nil
  then show ?case by simp
next
  case (Cons p ps)
  then have ne: "Payment.Type p \<noteq> k" and rest: "k \<notin> Payment.Type ` set ps"
    by auto
  show ?case
    using sumPayments_loop_skip [OF ne, of ops ps m] Cons.IH [OF rest, of m] by simp
qed

lemma sumPayments_loop_remove:
  assumes "Payment.Type p \<noteq> k"
  shows "sumPayments_loop ops (xs @ p # ys) m k = sumPayments_loop ops (xs @ ys) m k"
  using sumPayments_loop_skip [OF assms] by (simp add: sumPayments_loop_append)

lemma sumVatTotals_cong:
  assumes "\<And>k m. k \<in> {''A-18.00'', ''B-0.00'', ''C-0.00'', ''D-0.00'', ''E-0.00''} \<Longrightarrow>
             sumVatTotals_loop rt vats m k = sumVatTotals_loop rt vats' m k"
  shows "sumVatTotals rt vats = sumVatTotals rt vats'"
  using assms by (simp add: sumVatTotals_def Let_def vatTotalMap_index_def)

lemma sumPayments_cong:
  assumes "\<And>k m. k \<in> {''CASH'', ''CHEQUE'', ''CCARD'', ''EMONEY'', ''INVOICE''} \<Longrightarrow>
             sumPayments_loop rt ps m k = sumPayments_loop rt ps' m k"
  shows "sumPayments rt ps = sumPayments rt ps'"
  using assms by (simp add: sumPayments_def Let_def paymentMap_index_def)

lemma sumVatTotals_loop_filter:
  assumes "k \<in> K"
  shows "sumVatTotals_loop rt vats m k =
         sumVatTotals_loop rt
           (filter (\<lambda>vat. VATTOTAL.ID vat @ ''-'' @ Sprintf_2f rt (Rate vat) \<in> K) vats) m k"
proof (induction vats arbitrary: m)
  case Nil
  show ?case by simp
next
  case (Cons vat vats)
  show ?case
  proof (cases "VATTOTAL.ID vat @ ''-'' @ Sprintf_2f rt (Rate vat) \<in> K")
    case True
    let ?m' = "m(VATTOTAL.ID vat @ ''-'' @ Sprintf_2f rt (Rate vat) \<mapsto>
      (f64_add rt (fst (vatTotalMap_index rt m (VATTOTAL.ID vat @ ''-'' @ Sprintf_2f rt (Rate vat))))
         (VATTOTAL.NetAmount vat),
       f64_add rt (snd (vatTotalMap_index rt m (VATTOTAL.ID vat @ ''-'' @ Sprintf_2f rt (Rate vat))))
         (TaxAmount vat)))"
    let ?keep = "filter (\<lambda>vat. VATTOTAL.ID vat @ ''-'' @ Sprintf_2f rt (Rate vat) \<in> K)"
    have "sumVatTotals_loop rt (vat # vats) m k = sumVatTotals_loop rt vats ?m' k"
      by (simp add: Let_def)
    also have "\<dots> = sumVatTotals_loop rt (?keep vats) ?m' k"
      by (rule Cons.IH)
    also have "\<dots> = sumVatTotals_loop rt (vat # ?keep vats) m k"
      by (simp add: Let_def)
    also have "vat # ?keep vats = ?keep (vat # vats)"
      using True by simp
    finally show ?thesis .
  next
    case False
    with assms have "VATTOTAL.ID vat @ ''-'' @ Sprintf_2f rt (Rate vat) \<noteq> k" by auto
    then have "sumVatTotals_loop rt (vat # vats) m k = sumVatTotals_loop rt vats m k"
      by (rule sumVatTotals_loop_skip)
    also have "\<dots> =
        sumVatTotals_loop rt
          (filter (\<lambda>vat. VATTOTAL.ID vat @ ''-'' @ Sprintf_2f rt (Rate vat) \<in> K) vats) m k"
      by (rule Cons.IH)
    also have "filter (\<lambda>vat. VATTOTAL.ID vat @ ''-'' @ Sprintf_2f rt (Rate vat) \<in> K) vats =
        filter (\<lambda>vat. VATTOTAL.ID vat @ ''-'' @ Sprintf_2f rt (Rate vat) \<in> K) (vat # vats)"
      using False by simp
    finally show ?thesis .
  qed
qed

lemma sumPayments_loop_filter:
  assumes "k \<in> K"
  shows "sumPayments_loop ops ps m k =
         sumPayments_loop ops (filter (\<lambda>p. Payment.Type p \<in> K) ps) m k"
proof (induction ps arbitrary: m)
  case Nil
  show ?case by simp
next
  case (Cons p ps)
  show ?case
  proof (cases "Payment.Type p \<in> K")
    case True
    let ?m' = "m(Payment.Type p \<mapsto>
      f64_add ops (paymentMap_index ops m (Payment.Type p)) (Amount p))"
    let ?keep = "filter (\<lambda>p. Payment.Type p \<in> K)"
    have "sumPayments_loop ops (p # ps) m k = sumPayments_loop ops ps ?m' k"
      by (simp add: Let_def)
    also have "\<dots> = sumPayments_loop ops (?keep ps) ?m' k"
      by (rule Cons.IH)
    also have "\<dots> = sumPayments_loop ops (p # ?keep ps) m k"
      by (simp add: Let_def)
    also have "p # ?keep ps = ?keep (p # ps)"
      using True by simp
    finally show ?thesis .
  next
    case False
    with assms have "Payment.Type p \<noteq> k" by auto
    then have "sumPayments_loop ops (p # ps) m k = sumPayments_loop ops ps m k"
      by (rule sumPayments_loop_skip)
    also have "\<dots> = sumPayments_loop ops (filter (\<lambda>p. Payment.Type p \<in> K) ps) m k"
      by (rule Cons.IH)
    also have "filter (\<lambda>p. Payment.Type p \<in> K) ps =
        filter (\<lambda>p. Payment.Type p \<in> K) (p # ps)"
      using False by simp
    finally show ?thesis .
  qed
qed

text \<open>
  Claim C4. Whatever the supplied VAT entries and payments are, the aggregation of the
  Z report returns exactly five VAT totals, with the rates A-18.00, B-0.00, C-0.00,
  D-0.00, E-0.00 in this order, and exactly five payments, with the types CASH, CHEQUE,
  CCARD, EMONEY, INVOICE in this order; a VAT total whose rate is the key of no
  supplied entry has net and tax amount 0.00, and a payment whose type is the type of
  no supplied payment has amount 0.00. (The hypothesis states how \<^verbatim>\<open>%.2f\<close> prints the
  float64 zero.)
\<close>

theorem Z_report_totals_have_fixed_shape:
  assumes "Sprintf_2f rt (f64_const rt 0) = ''0.00''"
  shows "length (sumVatTotals rt vats) = 5 \<and>
         map models_VATTOTAL.VATRATE (sumVatTotals rt vats) =
           [''A-18.00'', ''B-0.00'', ''C-0.00'', ''D-0.00'', ''E-0.00''] \<and>
         length (sumPayments rt payments) = 5 \<and>
         map PMTTYPE (sumPayments rt payments) =
           [''CASH'', ''CHEQUE'', ''CCARD'', ''EMONEY'', ''INVOICE''] \<and>
         (\<forall>t \<in> set (sumVatTotals rt vats).
            models_VATTOTAL.VATRATE t \<notin>
              (\<lambda>vat. VATTOTAL.ID vat @ ''-'' @ Sprintf_2f rt (Rate vat)) ` set vats \<longrightarrow>
            models_VATTOTAL.NETTAMOUNT t = ''0.00'' \<and> models_VATTOTAL.TAXAMOUNT t = ''0.00'') \<and>
         (\<forall>t \<in> set (sumPayments rt payments).
            PMTTYPE t \<notin> Payment.Type ` set payments \<longrightarrow> PMTAMOUNT t = ''0.00'')"
proof -
  have shape: "length (sumVatTotals rt vats) = 5 \<and>
         map models_VATTOTAL.VATRATE (sumVatTotals rt vats) =
           [''A-18.00'', ''B-0.00'', ''C-0.00'', ''D-0.00'', ''E-0.00''] \<and>
         length (sumPayments rt payments) = 5 \<and>
         map PMTTYPE (sumPayments rt payments) =
           [''CASH'', ''CHEQUE'', ''CCARD'', ''EMONEY'', ''INVOICE'']"
    by (simp add: sumVatTotals_def sumPayments_def Let_def)
  have vat: "models_VATTOTAL.NETTAMOUNT t = ''0.00'' \<and> models_VATTOTAL.TAXAMOUNT t = ''0.00''"
    if t: "t \<in> set (sumVatTotals rt vats)"
      and un: "models_VATTOTAL.VATRATE t \<notin>
                 (\<lambda>vat. VATTOTAL.ID vat @ ''-'' @ Sprintf_2f rt (Rate vat)) ` set vats" for t
  proof -
    have keep: "sumVatTotals_loop rt vats m (models_VATTOTAL.VATRATE t) =
                m (models_VATTOTAL.VATRATE t)" for m
      using un by (rule sumVatTotals_loop_untouched)
    from t consider
        "models_VATTOTAL.VATRATE t = ''A-18.00''" | "models_VATTOTAL.VATRATE t = ''B-0.00''"
      | "models_VATTOTAL.VATRATE t = ''C-0.00''" | "models_VATTOTAL.VATRATE t = ''D-0.00''"
      | "models_VATTOTAL.VATRATE t = ''E-0.00''"
      by (auto simp: sumVatTotals_def Let_def)
    then show ?thesis
    proof cases
      case 1
      with t keep [of "[''A-18.00'' \<mapsto> (f64_const rt 0, f64_const rt 0),
               ''B-0.00'' \<mapsto> (f64_const rt 0, f64_const rt 0),
               ''C-0.00'' \<mapsto> (f64_const rt 0, f64_const rt 0),
               ''D-0.00'' \<mapsto> (f64_const rt 0, f64_const rt 0),
               ''E-0.00'' \<mapsto> (f64_const rt 0, f64_const rt 0)]"] assms
      show ?thesis by (auto simp: sumVatTotals_def Let_def vatTotalMap_index_def)
    next
      case 2
      with t keep [of "[''A-18.00'' \<mapsto> (f64_const rt 0, f64_const rt 0),
               ''B-0.00'' \<mapsto> (f64_const rt 0, f64_const rt 0),
               ''C-0.00'' \<mapsto> (f64_const rt 0, f64_const rt 0),
               ''D-0.00'' \<mapsto> (f64_const rt 0, f64_const rt 0),
               ''E-0.00'' \<mapsto> (f64_const rt 0, f64_const rt 0)]"] assms
      show ?thesis by (auto simp: sumVatTotals_def Let_def vatTotalMap_index_def)
    next
      case 3
      with t keep [of "[''A-18.00'' \<mapsto> (f64_const rt 0, f64_const rt 0),
               ''B-0.00'' \<mapsto> (f64_const rt 0, f64_const rt 0),
               ''C-0.00'' \<mapsto> (f64_const rt 0, f64_const rt 0),
               ''D-0.00'' \<mapsto> (f64_const rt 0, f64_const rt 0),
               ''E-0.00'' \<mapsto> (f64_const rt 0, f64_const rt 0)]"] assms
      show ?thesis by (auto simp: sumVatTotals_def Let_def vatTotalMap_index_def)
    next
      case 4
      with t keep [of "[''A-18.00'' \<mapsto> (f64_const rt 0, f64_const rt 0),
               ''B-0.00'' \<mapsto> (f64_const rt 0, f64_const rt 0),
               ''C-0.00'' \<mapsto> (f64_const rt 0, f64_const rt 0),
               ''D-0.00'' \<mapsto> (f64_const rt 0, f64_const rt 0),
               ''E-0.00'' \<mapsto> (f64_const rt 0, f64_const rt 0)]"] assms
      show ?thesis by (auto simp: sumVatTotals_def Let_def vatTotalMap_index_def)
    next
      case 5
      with t keep [of "[''A-18.00'' \<mapsto> (f64_const rt 0, f64_const rt 0),
               ''B-0.00'' \<mapsto> (f64_const rt 0, f64_const rt 0),
               ''C-0.00'' \<mapsto> (f64_const rt 0, f64_const rt 0),
               ''D-0.00'' \<mapsto> (f64_const rt 0, f64_const rt 0),
               ''E-0.00'' \<mapsto> (f64_const rt 0, f64_const rt 0)]"] assms
      show ?thesis by (auto simp: sumVatTotals_def Let_def vatTotalMap_index_def)
    qed
  qed
  have pay: "PMTAMOUNT t = ''0.00''"
    if t: "t \<in> set (sumPayments rt payments)"
      and un: "PMTTYPE t \<notin> Payment.Type ` set payments" for t
  proof -
    have keep: "sumPayments_loop rt payments m (PMTTYPE t) = m (PMTTYPE t)" for m
      using un by (rule sumPayments_loop_untouched)
    from t keep [of "[''CASH'' \<mapsto> f64_const rt 0,
               ''CHEQUE'' \<mapsto> f64_const rt 0,
               ''CCARD'' \<mapsto> f64_const rt 0,
               ''EMONEY'' \<mapsto> f64_const rt 0,
               ''INVOICE'' \<mapsto> f64_const rt 0]"] assms
    show ?thesis by (auto simp: sumPayments_def Let_def paymentMap_index_def)
  qed
  from shape vat pay show ?thesis by blast
qed

theorem Z_report_totals_have_fixed_shape_witness:
  "Sprintf_2f exact_stdlib (f64_const exact_stdlib 0) = ''0.00'' \<and>
   sumVatTotals exact_stdlib
     [\<lparr> VATTOTAL.ID = ''C'', Rate = 0, TaxAmount = 0, VATTOTAL.NetAmount = 25 / 2 \<rparr>,
      \<lparr> VATTOTAL.ID = ''A'', Rate = 18, TaxAmount = 9 / 50, VATTOTAL.NetAmount = 1 \<rparr>,
      \<lparr> VATTOTAL.ID = ''A'', Rate = 18, TaxAmount = 9 / 25, VATTOTAL.NetAmount = 2 \<rparr>] =
     [\<lparr> models_VATTOTAL.VATRATE = ''A-18.00'', NETTAMOUNT = ''3.00'', TAXAMOUNT = ''0.54'' \<rparr>,
      \<lparr> models_VATTOTAL.VATRATE = ''B-0.00'', NETTAMOUNT = ''0.00'', TAXAMOUNT = ''0.00'' \<rparr>,
      \<lparr> models_VATTOTAL.VATRATE = ''C-0.00'', NETTAMOUNT = ''12.50'', TAXAMOUNT = ''0.00'' \<rparr>,
      \<lparr> models_VATTOTAL.VATRATE = ''D-0.00'', NETTAMOUNT = ''0.00'', TAXAMOUNT = ''0.00'' \<rparr>,
      \<lparr> models_VATTOTAL.VATRATE = ''E-0.00'', NETTAMOUNT = ''0.00'', TAXAMOUNT = ''0.00'' \<rparr>] \<and>
   sumPayments exact_stdlib [] =
     [\<lparr> PMTTYPE = ''CASH'', PMTAMOUNT = ''0.00'' \<rparr>,
      \<lparr> PMTTYPE = ''CHEQUE'', PMTAMOUNT = ''0.00'' \<rparr>,
      \<lparr> PMTTYPE = ''CCARD'', PMTAMOUNT = ''0.00'' \<rparr>,
      \<lparr> PMTTYPE = ''EMONEY'', PMTAMOUNT = ''0.00'' \<rparr>,
      \<lparr> PMTTYPE = ''INVOICE'', PMTAMOUNT = ''0.00'' \<rparr>]"
proof -
  have zero: "Sprintf_2f exact_stdlib (f64_const exact_stdlib 0) = ''0.00''"
    by code_simp
  have vats: "sumVatTotals exact_stdlib
     [\<lparr> VATTOTAL.ID = ''C'', Rate = 0, TaxAmount = 0, VATTOTAL.NetAmount = 25 / 2 \<rparr>,
      \<lparr> VATTOTAL.ID = ''A'', Rate = 18, TaxAmount = 9 / 50, VATTOTAL.NetAmount = 1 \<rparr>,
      \<lparr> VATTOTAL.ID = ''A'', Rate = 18, TaxAmount = 9 / 25, VATTOTAL.NetAmount = 2 \<rparr>] =
     [\<lparr> models_VATTOTAL.VATRATE = ''A-18.00'', NETTAMOUNT = ''3.00'', TAXAMOUNT = ''0.54'' \<rparr>,
      \<lparr> models_VATTOTAL.VATRATE = ''B-0.00'', NETTAMOUNT = ''0.00'', TAXAMOUNT = ''0.00'' \<rparr>,
      \<lparr> models_VATTOTAL.VATRATE = ''C-0.00'', NETTAMOUNT = ''12.50'', TAXAMOUNT = ''0.00'' \<rparr>,
      \<lparr> models_VATTOTAL.VATRATE = ''D-0.00'', NETTAMOUNT = ''0.00'', TAXAMOUNT = ''0.00'' \<rparr>,
      \<lparr> models_VATTOTAL.VATRATE = ''E-0.00'', NETTAMOUNT = ''0.00'', TAXAMOUNT = ''0.00'' \<rparr>]"
    by code_simp
  have pays: "sumPayments exact_stdlib [] =
     [\<lparr> PMTTYPE = ''CASH'', PMTAMOUNT = ''0.00'' \<rparr>,
      \<lparr> PMTTYPE = ''CHEQUE'', PMTAMOUNT = ''0.00'' \<rparr>,
      \<lparr> PMTTYPE = ''CCARD'', PMTAMOUNT = ''0.00'' \<rparr>,
      \<lparr> PMTTYPE = ''EMONEY'', PMTAMOUNT = ''0.00'' \<rparr>,
      \<lparr> PMTTYPE = ''INVOICE'', PMTAMOUNT = ''0.00'' \<rparr>]"
    by code_simp
  show ?thesis
    using zero vats pays
      Z_report_totals_have_fixed_shape [OF zero,
        of "[\<lparr> VATTOTAL.ID = ''C'', Rate = 0, TaxAmount = 0, VATTOTAL.NetAmount = 25 / 2 \<rparr>,
             \<lparr> VATTOTAL.ID = ''A'', Rate = 18, TaxAmount = 9 / 50, VATTOTAL.NetAmount = 1 \<rparr>,
             \<lparr> VATTOTAL.ID = ''A'', Rate = 18, TaxAmount = 9 / 25, VATTOTAL.NetAmount = 2 \<rparr>]"
           "[]"]
    by blast
qed

text \<open>
  Claim C5. A supplied VAT entry whose key \<open>ID-rate\<close> (the rate printed with two
  decimals) is none of the five canonical keys, and a supplied payment whose type is
  none of the five canonical types, can be removed from the input without changing
  what the aggregation returns; the result is the one computed from the entries with a
  canonical key alone. The functions return a value on every input: there is no error
  result.
\<close>

theorem Z_report_aggregation_drops_foreign_entries:
  "(VATTOTAL.ID vat @ ''-'' @ Sprintf_2f rt (Rate vat)
      \<notin> {''A-18.00'', ''B-0.00'', ''C-0.00'', ''D-0.00'', ''E-0.00''} \<longrightarrow>
    sumVatTotals rt (xs @ vat # ys) = sumVatTotals rt (xs @ ys)) \<and>
   (Payment.Type p \<notin> {''CASH'', ''CHEQUE'', ''CCARD'', ''EMONEY'', ''INVOICE''} \<longrightarrow>
    sumPayments rt (ps @ p # qs) = sumPayments rt (ps @ qs)) \<and>
   sumVatTotals rt vats =
     sumVatTotals rt
       (filter (\<lambda>vat. VATTOTAL.ID vat @ ''-'' @ Sprintf_2f rt (Rate vat)
                  \<in> {''A-18.00'', ''B-0.00'', ''C-0.00'', ''D-0.00'', ''E-0.00''}) vats) \<and>
   sumPayments rt payments =
     sumPayments rt
       (filter (\<lambda>p. Payment.Type p \<in> {''CASH'', ''CHEQUE'', ''CCARD'', ''EMONEY'', ''INVOICE''})
          payments)"
proof (intro conjI impI)
  assume foreign: "VATTOTAL.ID vat @ ''-'' @ Sprintf_2f rt (Rate vat)
      \<notin> {''A-18.00'', ''B-0.00'', ''C-0.00'', ''D-0.00'', ''E-0.00''}"
  show "sumVatTotals rt (xs @ vat # ys) = sumVatTotals rt (xs @ ys)"
  proof (rule sumVatTotals_cong)
    fix k :: string and m
    assume "k \<in> {''A-18.00'', ''B-0.00'', ''C-0.00'', ''D-0.00'', ''E-0.00''}"
    with foreign have "VATTOTAL.ID vat @ ''-'' @ Sprintf_2f rt (Rate vat) \<noteq> k"
      by blast
    then show "sumVatTotals_loop rt (xs @ vat # ys) m k = sumVatTotals_loop rt (xs @ ys) m k"
      by (rule sumVatTotals_loop_remove)
  qed
next
  assume foreign: "Payment.Type p \<notin> {''CASH'', ''CHEQUE'', ''CCARD'', ''EMONEY'', ''INVOICE''}"
  show "sumPayments rt (ps @ p # qs) = sumPayments rt (ps @ qs)"
  proof (rule sumPayments_cong)
    fix k :: string and m
    assume "k \<in> {''CASH'', ''CHEQUE'', ''CCARD'', ''EMONEY'', ''INVOICE''}"
    with foreign have "Payment.Type p \<noteq> k"
      by blast
    then show "sumPayments_loop rt (ps @ p # qs) m k = sumPayments_loop rt (ps @ qs) m k"
      by (rule sumPayments_loop_remove)
  qed
next
  show "sumVatTotals rt vats =
     sumVatTotals rt
       (filter (\<lambda>vat. VATTOTAL.ID vat @ ''-'' @ Sprintf_2f rt (Rate vat)
                  \<in> {''A-18.00'', ''B-0.00'', ''C-0.00'', ''D-0.00'', ''E-0.00''}) vats)"
    by (rule sumVatTotals_cong) (rule sumVatTotals_loop_filter)
next
  show "sumPayments rt payments =
     sumPayments rt
       (filter (\<lambda>p. Payment.Type p \<in> {''CASH'', ''CHEQUE'', ''CCARD'', ''EMONEY'', ''INVOICE''})
          payments)"
    by (rule sumPayments_cong) (rule sumPayments_loop_filter)
qed

theorem Z_report_aggregation_drops_foreign_entries_witness:
  "VATTOTAL.ID \<lparr> VATTOTAL.ID = ''A'', Rate = 18 / 100, TaxAmount = 9 / 50, VATTOTAL.NetAmount = 1 \<rparr>
     @ ''-'' @ Sprintf_2f exact_stdlib
         (Rate \<lparr> VATTOTAL.ID = ''A'', Rate = 18 / 100, TaxAmount = 9 / 50, VATTOTAL.NetAmount = 1 \<rparr>)
     = ''A-0.18'' \<and>
   ''A-0.18'' \<notin> {''A-18.00'', ''B-0.00'', ''C-0.00'', ''D-0.00'', ''E-0.00''} \<and>
   sumVatTotals exact_stdlib
     ([\<lparr> VATTOTAL.ID = ''A'', Rate = 18, TaxAmount = 9 / 25, VATTOTAL.NetAmount = 2 \<rparr>] @
      \<lparr> VATTOTAL.ID = ''A'', Rate = 18 / 100, TaxAmount = 9 / 50, VATTOTAL.NetAmount = 1 \<rparr> # []) =
   sumVatTotals exact_stdlib
     ([\<lparr> VATTOTAL.ID = ''A'', Rate = 18, TaxAmount = 9 / 25, VATTOTAL.NetAmount = 2 \<rparr>] @ []) \<and>
   Payment.Type \<lparr> Payment.Type = ''cash'', Amount = 50 \<rparr>
     \<notin> {''CASH'', ''CHEQUE'', ''CCARD'', ''EMONEY'', ''INVOICE''} \<and>
   sumPayments exact_stdlib
     ([\<lparr> Payment.Type = ''CASH'', Amount = 20 \<rparr>] @ \<lparr> Payment.Type = ''cash'', Amount = 50 \<rparr> # []) =
   sumPayments exact_stdlib ([\<lparr> Payment.Type = ''CASH'', Amount = 20 \<rparr>] @ [])"
proof -
  have key: "VATTOTAL.ID \<lparr> VATTOTAL.ID = ''A'', Rate = 18 / 100, TaxAmount = 9 / 50, VATTOTAL.NetAmount = 1 \<rparr>
     @ ''-'' @ Sprintf_2f exact_stdlib
         (Rate \<lparr> VATTOTAL.ID = ''A'', Rate = 18 / 100, TaxAmount = 9 / 50, VATTOTAL.NetAmount = 1 \<rparr>)
     = ''A-0.18''"
    by code_simp
  have foreign: "''A-0.18'' \<notin> {''A-18.00'', ''B-0.00'', ''C-0.00'', ''D-0.00'', ''E-0.00''}"
    by simp
  have type: "Payment.Type \<lparr> Payment.Type = ''cash'', Amount = 50 \<rparr>
     \<notin> {''CASH'', ''CHEQUE'', ''CCARD'', ''EMONEY'', ''INVOICE''}"
    by simp
  show ?thesis
    using key foreign type
      Z_report_aggregation_drops_foreign_entries
        [of "\<lparr> VATTOTAL.ID = ''A'', Rate = 18 / 100, TaxAmount = 9 / 50, VATTOTAL.NetAmount = 1 \<rparr>"
            exact_stdlib
            "[\<lparr> VATTOTAL.ID = ''A'', Rate = 18, TaxAmount = 9 / 25, VATTOTAL.NetAmount = 2 \<rparr>]"
            "[]"
            "\<lparr> Payment.Type = ''cash'', Amount = 50 \<rparr>"
            "[\<lparr> Payment.Type = ''CASH'', Amount = 20 \<rparr>]"
            "[]"]
    by simp
qed

section \<open>Properties of the line-item processor\<close>

lemma set_AList_update_subset: "set (AList.update k v al) \<subseteq> insert (k, v) (set al)"
  by (induction al) auto

lemma vatTotals_add_keys:
  "fst ` set (vatTotals_add ops vt k n t) = insert k (fst ` set vt)"
  by (auto simp: vatTotals_add_def dom_update split: option.splits)

lemma vatTotals_add_distinct:
  "distinct (map fst vt) \<Longrightarrow> distinct (map fst (vatTotals_add ops vt k n t))"
  by (auto simp: vatTotals_add_def distinct_update map_of_eq_None_iff split: option.splits)

lemma vatTotals_add_rate:
  assumes "\<forall>e \<in> set vt. vatTotal.VATRATE (snd e) = fst e"
  shows "\<forall>e \<in> set (vatTotals_add ops vt k n t). vatTotal.VATRATE (snd e) = fst e"
proof (cases "map_of vt k")
  case None
  with assms show ?thesis by (auto simp: vatTotals_add_def)
next
  case (Some v)
  then have "(k, v) \<in> set vt" by (rule map_of_SomeD)
  with assms have "vatTotal.VATRATE v = k" by auto
  with assms Some set_AList_update_subset show ?thesis
    by (fastforce simp: vatTotals_add_def)
qed

lemma ProcessItems_loop_ITEMS:
  "snd (snd (snd (snd (ProcessItems_loop ops items D E I vt its)))) =
   its @ map (\<lambda>item. \<lparr> ITEM.ID = Item.ID item, ITEM.DESC = Description item,
                         ITEM.QTY = Quantity item, ITEM.TAXCODE = TaxCode item,
                         ITEM.AMT = f64_mul ops (Quantity item) (UnitPrice item) \<rparr>) items"
  by (induction items arbitrary: D E I vt its) (simp_all add: Let_def)

lemma ProcessItems_loop_DISCOUNT:
  "fst (ProcessItems_loop ops items D E I vt its) =
   foldl (f64_add ops) D (map Discount items)"
  by (induction items arbitrary: D E I vt its) (simp_all add: Let_def)

lemma ProcessItems_loop_TOTALTAXEXCLUSIVE:
  "fst (snd (ProcessItems_loop ops items D E I vt its)) =
   foldl (f64_add ops) E
     (map (\<lambda>item. NetAmount ops (TaxCode item)
                     (f64_sub ops (f64_mul ops (Quantity item) (UnitPrice item)) (Discount item)))
        items)"
  by (induction items arbitrary: D E I vt its) (simp_all add: Let_def)

lemma ProcessItems_loop_TOTALTAXINCLUSIVE:
  "fst (snd (snd (ProcessItems_loop ops items D E I vt its))) =
   foldl (f64_add ops) I
     (map (\<lambda>item. f64_sub ops (f64_mul ops (Quantity item) (UnitPrice item)) (Discount item))
        items)"
  by (induction items arbitrary: D E I vt its) (simp_all add: Let_def)

lemma ProcessItems_loop_vatTotals:
  assumes "distinct (map fst vt)" and "\<forall>e \<in> set vt. vatTotal.VATRATE (snd e) = fst e"
  shows "distinct (map fst (fst (snd (snd (snd (ProcessItems_loop ops items D E I vt its)))))) \<and>
         (\<forall>e \<in> set (fst (snd (snd (snd (ProcessItems_loop ops items D E I vt its))))).
            vatTotal.VATRATE (snd e) = fst e) \<and>
         fst ` set (fst (snd (snd (snd (ProcessItems_loop ops items D E I vt its))))) =
           fst ` set vt \<union> (\<lambda>item. ValueAddedTaxID ops (TaxCode item)) ` set items"
  using assms
proof (induction items arbitrary: D E I vt its)
  case Nil
  then show ?case by simp
next
  case (Cons item items)
  let ?amt = "f64_sub ops (f64_mul ops (Quantity item) (UnitPrice item)) (Discount item)"
  let ?vt = "vatTotals_add ops vt (ValueAddedTax.ID (ParseTaxCode ops (TaxCode item)))
               (NetAmount ops (TaxCode item) ?amt) (ValueAddedTaxAmount ops (TaxCode item) ?amt)"
  have d: "distinct (map fst ?vt)"
    using Cons.prems(1) by (rule vatTotals_add_distinct)
  have r: "\<forall>e \<in> set ?vt. vatTotal.VATRATE (snd e) = fst e"
    using Cons.prems(2) by (rule vatTotals_add_rate)
  have k: "fst ` set ?vt = insert (ValueAddedTaxID ops (TaxCode item)) (fst ` set vt)"
    by (simp add: vatTotals_add_keys ValueAddedTaxID_def)
  show ?case
    using Cons.IH [OF d r] k by (simp add: Let_def)
qed

lemma map_of_vatTotals_add:
  "map_of (vatTotals_add ops vt k n t) k' =
   (if k' = k
    then Some (case map_of vt k of
                 None \<Rightarrow> \<lparr> vatTotal.VATRATE = k, vatTotal.NETTAMOUNT = n, vatTotal.TAXAMOUNT = t \<rparr>
               | Some v \<Rightarrow> v\<lparr> vatTotal.NETTAMOUNT := f64_add ops (vatTotal.NETTAMOUNT v) n,
                              vatTotal.TAXAMOUNT := f64_add ops (vatTotal.TAXAMOUNT v) t \<rparr>)
    else map_of vt k')"
  by (auto simp: vatTotals_add_def update_conv' map_add_def split: option.splits)

lemma ProcessItems_loop_map_of:
  "map_of (fst (snd (snd (snd (ProcessItems_loop ops items D E I vt its))))) k =
   foldl (\<lambda>acc item.
            if ValueAddedTaxID ops (TaxCode item) = k
            then Some (case acc of
                   None \<Rightarrow>
                     \<lparr> vatTotal.VATRATE = k,
                       vatTotal.NETTAMOUNT = NetAmount ops (TaxCode item)
                         (f64_sub ops (f64_mul ops (Quantity item) (UnitPrice item)) (Discount item)),
                       vatTotal.TAXAMOUNT = ValueAddedTaxAmount ops (TaxCode item)
                         (f64_sub ops (f64_mul ops (Quantity item) (UnitPrice item)) (Discount item)) \<rparr>
                 | Some v \<Rightarrow>
                     v\<lparr> vatTotal.NETTAMOUNT := f64_add ops (vatTotal.NETTAMOUNT v)
                          (NetAmount ops (TaxCode item)
                             (f64_sub ops (f64_mul ops (Quantity item) (UnitPrice item)) (Discount item))),
                        vatTotal.TAXAMOUNT := f64_add ops (vatTotal.TAXAMOUNT v)
                          (ValueAddedTaxAmount ops (TaxCode item)
                             (f64_sub ops (f64_mul ops (Quantity item) (UnitPrice item)) (Discount item))) \<rparr>)
            else acc)
     (map_of vt k) items"
proof (induction items arbitrary: D E I vt its)
  case Nil
  then show ?case by simp
next
  case (Cons item items)
  show ?case
    by (auto simp add: Let_def Cons.IH map_of_vatTotals_add ValueAddedTaxID_def split: option.splits)
qed

lemma foldl_category_filter:
  "foldl (\<lambda>acc item. if P item then Some (g acc item) else acc) acc items =
   foldl (\<lambda>acc item. Some (g acc item)) acc (filter P items)"
  by (induction items arbitrary: acc) simp_all

lemma foldl_category_Some:
  "foldl (\<lambda>acc item. Some (case acc of None \<Rightarrow> s item
            | Some v \<Rightarrow> v\<lparr> vatTotal.NETTAMOUNT := add (vatTotal.NETTAMOUNT v) (N item),
                           vatTotal.TAXAMOUNT := add (vatTotal.TAXAMOUNT v) (T item) \<rparr>))
     (Some v) xs =
   Some (v\<lparr> vatTotal.NETTAMOUNT := foldl add (vatTotal.NETTAMOUNT v) (map N xs),
             vatTotal.TAXAMOUNT := foldl add (vatTotal.TAXAMOUNT v) (map T xs) \<rparr>)"
  by (induction xs arbitrary: v) simp_all

lemma foldl_category_None:
  assumes "xs \<noteq> []"
  shows "foldl (\<lambda>acc item. Some (case acc of
              None \<Rightarrow> \<lparr> vatTotal.VATRATE = k, vatTotal.NETTAMOUNT = N item,
                         vatTotal.TAXAMOUNT = T item \<rparr>
            | Some v \<Rightarrow> v\<lparr> vatTotal.NETTAMOUNT := add (vatTotal.NETTAMOUNT v) (N item),
                           vatTotal.TAXAMOUNT := add (vatTotal.TAXAMOUNT v) (T item) \<rparr>))
     None xs =
   Some \<lparr> vatTotal.VATRATE = k,
          vatTotal.NETTAMOUNT = foldl add (hd (map N xs)) (tl (map N xs)),
          vatTotal.TAXAMOUNT = foldl add (hd (map T xs)) (tl (map T xs)) \<rparr>"
proof -
  from assms obtain x ys where xs: "xs = x # ys"
    by (cases xs) auto
  show ?thesis
    unfolding xs
    by (simp add: foldl_category_Some
          [where s = "\<lambda>item. \<lparr> vatTotal.VATRATE = k, vatTotal.NETTAMOUNT = N item,
                         vatTotal.TAXAMOUNT = T item \<rparr>"])
qed

lemma ProcessItems_loop_category:
  assumes "k \<in> (\<lambda>item. ValueAddedTaxID ops (TaxCode item)) ` set items"
  shows "map_of (fst (snd (snd (snd (ProcessItems_loop ops items D E I [] its))))) k =
     Some \<lparr> vatTotal.VATRATE = k,
            vatTotal.NETTAMOUNT =
              foldl (f64_add ops)
                (hd (map (\<lambda>item. NetAmount ops (TaxCode item)
                       (f64_sub ops (f64_mul ops (Quantity item) (UnitPrice item)) (Discount item)))
                     (filter (\<lambda>item. ValueAddedTaxID ops (TaxCode item) = k) items)))
                (tl (map (\<lambda>item. NetAmount ops (TaxCode item)
                       (f64_sub ops (f64_mul ops (Quantity item) (UnitPrice item)) (Discount item)))
                     (filter (\<lambda>item. ValueAddedTaxID ops (TaxCode item) = k) items))),
            vatTotal.TAXAMOUNT =
              foldl (f64_add ops)
                (hd (map (\<lambda>item. ValueAddedTaxAmount ops (TaxCode item)
                       (f64_sub ops (f64_mul ops (Quantity item) (UnitPrice item)) (Discount item)))
                     (filter (\<lambda>item. ValueAddedTaxID ops (TaxCode item) = k) items)))
                (tl (map (\<lambda>item. ValueAddedTaxAmount ops (TaxCode item)
                       (f64_sub ops (f64_mul ops (Quantity item) (UnitPrice item)) (Discount item)))
                     (filter (\<lambda>item. ValueAddedTaxID ops (TaxCode item) = k) items))) \<rparr>"
proof -
  have ne: "filter (\<lambda>item. ValueAddedTaxID ops (TaxCode item) = k) items \<noteq> []"
    using assms by (auto simp: filter_empty_conv)
  show ?thesis
    unfolding ProcessItems_loop_map_of map_of.simps foldl_category_filter
    by (rule foldl_category_None [OF ne, where add = "f64_add ops"])
qed


lemma ProcessItems_VATTOTALS:
  assumes "\<forall>m. mset (map_range rt m) = mset m"
  shows "mset (ItemProcessResponse.VATTOTALS (ProcessItems rt items)) =
         mset (map (\<lambda>k.
                 let its = filter (\<lambda>item. ValueAddedTaxID rt (TaxCode item) = k) items;
                     nets = map (\<lambda>item. NetAmount rt (TaxCode item)
                              (f64_sub rt (f64_mul rt (Quantity item) (UnitPrice item))
                                 (Discount item))) its;
                     taxes = map (\<lambda>item. ValueAddedTaxAmount rt (TaxCode item)
                               (f64_sub rt (f64_mul rt (Quantity item) (UnitPrice item))
                                  (Discount item))) its
                 in \<lparr> models_VATTOTAL.VATRATE = k,
                      models_VATTOTAL.NETTAMOUNT =
                        Sprintf_2f rt (foldl (f64_add rt) (hd nets) (tl nets)),
                      models_VATTOTAL.TAXAMOUNT =
                        Sprintf_2f rt (foldl (f64_add rt) (hd taxes) (tl taxes)) \<rparr>)
               (remdups (map (\<lambda>item. ValueAddedTaxID rt (TaxCode item)) items)))"
proof -
  let ?z = "f64_const rt 0"
  let ?run = "ProcessItems_loop rt items ?z ?z ?z [] []"
  let ?ids = "map (\<lambda>item. ValueAddedTaxID rt (TaxCode item)) items"
  let ?R = "\<lambda>v. \<lparr> models_VATTOTAL.VATRATE = vatTotal.VATRATE v,
                  models_VATTOTAL.NETTAMOUNT = Sprintf_2f rt (vatTotal.NETTAMOUNT v),
                  models_VATTOTAL.TAXAMOUNT = Sprintf_2f rt (vatTotal.TAXAMOUNT v) \<rparr>"
  let ?F = "\<lambda>k. \<lparr> vatTotal.VATRATE = k,
            vatTotal.NETTAMOUNT =
              foldl (f64_add rt)
                (hd (map (\<lambda>item. NetAmount rt (TaxCode item)
                       (f64_sub rt (f64_mul rt (Quantity item) (UnitPrice item)) (Discount item)))
                     (filter (\<lambda>item. ValueAddedTaxID rt (TaxCode item) = k) items)))
                (tl (map (\<lambda>item. NetAmount rt (TaxCode item)
                       (f64_sub rt (f64_mul rt (Quantity item) (UnitPrice item)) (Discount item)))
                     (filter (\<lambda>item. ValueAddedTaxID rt (TaxCode item) = k) items))),
            vatTotal.TAXAMOUNT =
              foldl (f64_add rt)
                (hd (map (\<lambda>item. ValueAddedTaxAmount rt (TaxCode item)
                       (f64_sub rt (f64_mul rt (Quantity item) (UnitPrice item)) (Discount item)))
                     (filter (\<lambda>item. ValueAddedTaxID rt (TaxCode item) = k) items)))
                (tl (map (\<lambda>item. ValueAddedTaxAmount rt (TaxCode item)
                       (f64_sub rt (f64_mul rt (Quantity item) (UnitPrice item)) (Discount item)))
                     (filter (\<lambda>item. ValueAddedTaxID rt (TaxCode item) = k) items))) \<rparr>"
  obtain D E I vt its where run: "?run = (D, E, I, vt, its)"
    by (metis prod_cases5)
  have vt: "vt = fst (snd (snd (snd ?run)))"
    by (simp add: run)
  have resp: "ItemProcessResponse.VATTOTALS (ProcessItems rt items) =
                map (\<lambda>(k, v). ?R v) (map_range rt vt)"
    by (simp add: ProcessItems_def run Let_def)
  have inv: "distinct (map fst vt)" "fst ` set vt = set ?ids"
    using ProcessItems_loop_vatTotals [of "[]" rt items ?z ?z ?z "[]"] by (simp_all add: run)
  have entry: "snd e = ?F (fst e)" if e: "e \<in> set vt" for e
  proof -
    have "fst e \<in> (\<lambda>item. ValueAddedTaxID rt (TaxCode item)) ` set items"
      using e inv(2) by auto
    then have "map_of vt (fst e) = Some (?F (fst e))"
      unfolding vt by (rule ProcessItems_loop_category)
    moreover have "map_of vt (fst e) = Some (snd e)"
      using inv(1) e by (simp add: map_of_is_SomeI)
    ultimately show ?thesis by simp
  qed
  have "set (map fst vt) = set (remdups ?ids)"
    using inv(2) by simp
  moreover have "distinct (remdups ?ids)"
    by simp
  ultimately have keys: "mset (map fst vt) = mset (remdups ?ids)"
    using inv(1) by (simp only: set_eq_iff_mset_eq_distinct)
  have "mset (ItemProcessResponse.VATTOTALS (ProcessItems rt items)) =
        image_mset (\<lambda>(k, v). ?R v) (mset (map_range rt vt))"
    by (simp add: resp)
  also have "\<dots> = image_mset (\<lambda>(k, v). ?R v) (mset vt)"
    using assms by simp
  also have "\<dots> = image_mset (\<lambda>e. ?R (?F (fst e))) (mset vt)"
  proof (rule image_mset_cong)
    fix e
    assume "e \<in># mset vt"
    then have "snd e = ?F (fst e)"
      using entry by simp
    then show "(case e of (k, v) \<Rightarrow> ?R v) = ?R (?F (fst e))"
      by (simp only: case_prod_beta)
  qed
  also have "\<dots> = image_mset (\<lambda>k. ?R (?F k)) (mset (map fst vt))"
    by (simp add: image_mset.compositionality comp_def)
  also have "\<dots> = mset (map (\<lambda>k. ?R (?F k)) (remdups ?ids))"
    unfolding keys by (simp only: mset_map)
  finally show ?thesis
    by (simp add: Let_def)
qed

text \<open>
  Claim C9. For every list of items (and whatever order the \<^verbatim>\<open>range\<close> over the map
  takes, as long as it visits every entry once), \<^verbatim>\<open>ProcessItems\<close> returns
  \<^item> one rendered record per item, in input order, with the identifier, description,
    quantity and tax code of the item and with the amount quantity times unit price
    (the discount is not subtracted);
  \<^item> VAT totals whose rates are pairwise different and are exactly the identifiers of
    the tax categories of the items;
  \<^item> as VAT totals, in some order, exactly one entry for each tax category that some item
    has and nothing else: the entry of a category carries the net amounts of the items
    of that category, added up in input order starting from the first of them, and
    their tax amounts added up in the same way, both printed with two decimals;
  \<^item> totals that are the plain running sums of the discounts, of the net amounts and of
    the discounted amounts, in input order, starting from zero: no rounding is applied
    to the sums.
\<close>

theorem ProcessItems_renders_items_and_sums:
  assumes "\<forall>m. mset (map_range rt m) = mset m"
  shows "ItemProcessResponse.ITEMS (ProcessItems rt items) =
           map (\<lambda>item. \<lparr> ITEM.ID = Item.ID item, ITEM.DESC = Description item,
                            ITEM.QTY = Quantity item, ITEM.TAXCODE = TaxCode item,
                            ITEM.AMT = f64_mul rt (Quantity item) (UnitPrice item) \<rparr>) items \<and>
         set (map models_VATTOTAL.VATRATE (ItemProcessResponse.VATTOTALS (ProcessItems rt items))) =
           (\<lambda>item. ValueAddedTaxID rt (TaxCode item)) ` set items \<and>
         distinct (map models_VATTOTAL.VATRATE (ItemProcessResponse.VATTOTALS (ProcessItems rt items))) \<and>
         mset (ItemProcessResponse.VATTOTALS (ProcessItems rt items)) =
           mset (map (\<lambda>k.
                   let its = filter (\<lambda>item. ValueAddedTaxID rt (TaxCode item) = k) items;
                       nets = map (\<lambda>item. NetAmount rt (TaxCode item)
                                (f64_sub rt (f64_mul rt (Quantity item) (UnitPrice item))
                                   (Discount item))) its;
                       taxes = map (\<lambda>item. ValueAddedTaxAmount rt (TaxCode item)
                                 (f64_sub rt (f64_mul rt (Quantity item) (UnitPrice item))
                                    (Discount item))) its
                   in \<lparr> models_VATTOTAL.VATRATE = k,
                        models_VATTOTAL.NETTAMOUNT =
                          Sprintf_2f rt (foldl (f64_add rt) (hd nets) (tl nets)),
                        models_VATTOTAL.TAXAMOUNT =
                          Sprintf_2f rt (foldl (f64_add rt) (hd taxes) (tl taxes)) \<rparr>)
                 (remdups (map (\<lambda>item. ValueAddedTaxID rt (TaxCode item)) items))) \<and>
         DISCOUNT (ItemProcessResponse.TOTALS (ProcessItems rt items)) =
           foldl (f64_add rt) (f64_const rt 0) (map Discount items) \<and>
         TOTALTAXEXCL (ItemProcessResponse.TOTALS (ProcessItems rt items)) =
           foldl (f64_add rt) (f64_const rt 0)
             (map (\<lambda>item. NetAmount rt (TaxCode item)
                     (f64_sub rt (f64_mul rt (Quantity item) (UnitPrice item)) (Discount item)))
                items) \<and>
         TOTALTAXINCL (ItemProcessResponse.TOTALS (ProcessItems rt items)) =
           foldl (f64_add rt) (f64_const rt 0)
             (map (\<lambda>item. f64_sub rt (f64_mul rt (Quantity item) (UnitPrice item)) (Discount item))
                items)"
proof -
  let ?z = "f64_const rt 0"
  let ?run = "ProcessItems_loop rt items ?z ?z ?z [] []"
  let ?vt = "fst (snd (snd (snd ?run)))"
  obtain D E I vt its where run: "?run = (D, E, I, vt, its)"
    by (metis prod_cases5)
  have resp: "ProcessItems rt items =
      \<lparr> ItemProcessResponse.ITEMS = its,
        ItemProcessResponse.VATTOTALS =
          map (\<lambda>(k, v). \<lparr> models_VATTOTAL.VATRATE = vatTotal.VATRATE v,
                           models_VATTOTAL.NETTAMOUNT = Sprintf_2f rt (vatTotal.NETTAMOUNT v),
                           models_VATTOTAL.TAXAMOUNT = Sprintf_2f rt (vatTotal.TAXAMOUNT v) \<rparr>)
            (map_range rt vt),
        ItemProcessResponse.TOTALS =
          \<lparr> TOTALTAXEXCL = E, TOTALTAXINCL = I, DISCOUNT = D \<rparr> \<rparr>"
    by (simp add: ProcessItems_def run Let_def)
  have its: "its = map (\<lambda>item. \<lparr> ITEM.ID = Item.ID item, ITEM.DESC = Description item,
                            ITEM.QTY = Quantity item, ITEM.TAXCODE = TaxCode item,
                            ITEM.AMT = f64_mul rt (Quantity item) (UnitPrice item) \<rparr>) items"
    using ProcessItems_loop_ITEMS [of rt items ?z ?z ?z "[]" "[]"] by (simp add: run)
  have D: "D = foldl (f64_add rt) ?z (map Discount items)"
    using ProcessItems_loop_DISCOUNT [of rt items ?z ?z ?z "[]" "[]"] by (simp add: run)
  have E: "E = foldl (f64_add rt) ?z
             (map (\<lambda>item. NetAmount rt (TaxCode item)
                     (f64_sub rt (f64_mul rt (Quantity item) (UnitPrice item)) (Discount item)))
                items)"
    using ProcessItems_loop_TOTALTAXEXCLUSIVE [of rt items ?z ?z ?z "[]" "[]"] by (simp add: run)
  have I: "I = foldl (f64_add rt) ?z
             (map (\<lambda>item. f64_sub rt (f64_mul rt (Quantity item) (UnitPrice item)) (Discount item))
                items)"
    using ProcessItems_loop_TOTALTAXINCLUSIVE [of rt items ?z ?z ?z "[]" "[]"] by (simp add: run)
  have inv: "distinct (map fst vt) \<and> (\<forall>e \<in> set vt. vatTotal.VATRATE (snd e) = fst e) \<and>
             fst ` set vt = (\<lambda>item. ValueAddedTaxID rt (TaxCode item)) ` set items"
    using ProcessItems_loop_vatTotals [of "[]" rt items ?z ?z ?z "[]"] by (simp add: run)
  have perm: "mset (map_range rt vt) = mset vt"
    using assms by simp
  then have setr: "set (map_range rt vt) = set vt"
    by (rule mset_eq_setD)
  have "mset (map fst (map_range rt vt)) = mset (map fst vt)"
    using perm by simp
  then have dist: "distinct (map fst (map_range rt vt))"
    using inv mset_eq_imp_distinct_iff by blast
  have rates: "map models_VATTOTAL.VATRATE (ItemProcessResponse.VATTOTALS (ProcessItems rt items)) =
               map fst (map_range rt vt)"
    using inv setr by (auto simp: resp)
  have c1: "ItemProcessResponse.ITEMS (ProcessItems rt items) =
           map (\<lambda>item. \<lparr> ITEM.ID = Item.ID item, ITEM.DESC = Description item,
                            ITEM.QTY = Quantity item, ITEM.TAXCODE = TaxCode item,
                            ITEM.AMT = f64_mul rt (Quantity item) (UnitPrice item) \<rparr>) items"
    using its by (simp add: resp)
  have c2: "set (map models_VATTOTAL.VATRATE (ItemProcessResponse.VATTOTALS (ProcessItems rt items))) =
           (\<lambda>item. ValueAddedTaxID rt (TaxCode item)) ` set items"
    unfolding rates using inv setr by simp
  have c3: "distinct (map models_VATTOTAL.VATRATE (ItemProcessResponse.VATTOTALS (ProcessItems rt items)))"
    unfolding rates by (rule dist)
  have c4: "DISCOUNT (ItemProcessResponse.TOTALS (ProcessItems rt items)) =
           foldl (f64_add rt) (f64_const rt 0) (map Discount items)"
    using D by (simp add: resp)
  have c5: "TOTALTAXEXCL (ItemProcessResponse.TOTALS (ProcessItems rt items)) =
           foldl (f64_add rt) (f64_const rt 0)
             (map (\<lambda>item. NetAmount rt (TaxCode item)
                     (f64_sub rt (f64_mul rt (Quantity item) (UnitPrice item)) (Discount item)))
                items)"
    using E by (simp add: resp)
  have c6: "TOTALTAXINCL (ItemProcessResponse.TOTALS (ProcessItems rt items)) =
           foldl (f64_add rt) (f64_const rt 0)
             (map (\<lambda>item. f64_sub rt (f64_mul rt (Quantity item) (UnitPrice item)) (Discount item))
                items)"
    using I by (simp add: resp)
  have c7: "mset (ItemProcessResponse.VATTOTALS (ProcessItems rt items)) =
           mset (map (\<lambda>k.
                   let its = filter (\<lambda>item. ValueAddedTaxID rt (TaxCode item) = k) items;
                       nets = map (\<lambda>item. NetAmount rt (TaxCode item)
                                (f64_sub rt (f64_mul rt (Quantity item) (UnitPrice item))
                                   (Discount item))) its;
                       taxes = map (\<lambda>item. ValueAddedTaxAmount rt (TaxCode item)
                                 (f64_sub rt (f64_mul rt (Quantity item) (UnitPrice item))
                                    (Discount item))) its
                   in \<lparr> models_VATTOTAL.VATRATE = k,
                        models_VATTOTAL.NETTAMOUNT =
                          Sprintf_2f rt (foldl (f64_add rt) (hd nets) (tl nets)),
                        models_VATTOTAL.TAXAMOUNT =
                          Sprintf_2f rt (foldl (f64_add rt) (hd taxes) (tl taxes)) \<rparr>)
                 (remdups (map (\<lambda>item. ValueAddedTaxID rt (TaxCode item)) items)))"
    using assms by (rule ProcessItems_VATTOTALS)
  show ?thesis
    by (intro conjI c1 c2 c3 c7 c4 c5 c6)
qed

theorem ProcessItems_renders_items_and_sums_witness:
  "(\<forall>m. mset (map_range exact_stdlib m) = mset m) \<and>
   ItemProcessResponse.ITEMS (ProcessItems exact_stdlib
     [\<lparr> Item.ID = ''1'', Description = ''Item 1'', TaxCode = 1, Quantity = 5, UnitPrice = 2000,
        Discount = 5000 \<rparr>,
      \<lparr> Item.ID = ''2'', Description = ''Item 2'', TaxCode = 3, Quantity = 3, UnitPrice = 1 / 8,
        Discount = 0 \<rparr>,
      \<lparr> Item.ID = ''3'', Description = ''Item 3'', TaxCode = 1, Quantity = 1, UnitPrice = 1180,
        Discount = 0 \<rparr>]) =
     [\<lparr> ITEM.ID = ''1'', DESC = ''Item 1'', QTY = 5, TAXCODE = 1, AMT = 10000 \<rparr>,
      \<lparr> ITEM.ID = ''2'', DESC = ''Item 2'', QTY = 3, TAXCODE = 3, AMT = 3 / 8 \<rparr>,
      \<lparr> ITEM.ID = ''3'', DESC = ''Item 3'', QTY = 1, TAXCODE = 1, AMT = 1180 \<rparr>] \<and>
   set (map models_VATTOTAL.VATRATE (ItemProcessResponse.VATTOTALS (ProcessItems exact_stdlib
     [\<lparr> Item.ID = ''1'', Description = ''Item 1'', TaxCode = 1, Quantity = 5, UnitPrice = 2000,
        Discount = 5000 \<rparr>,
      \<lparr> Item.ID = ''2'', Description = ''Item 2'', TaxCode = 3, Quantity = 3, UnitPrice = 1 / 8,
        Discount = 0 \<rparr>,
      \<lparr> Item.ID = ''3'', Description = ''Item 3'', TaxCode = 1, Quantity = 1, UnitPrice = 1180,
        Discount = 0 \<rparr>]))) = {''A'', ''C''} \<and>
   mset (ItemProcessResponse.VATTOTALS (ProcessItems exact_stdlib
     [\<lparr> Item.ID = ''1'', Description = ''Item 1'', TaxCode = 1, Quantity = 5, UnitPrice = 2000,
        Discount = 5000 \<rparr>,
      \<lparr> Item.ID = ''2'', Description = ''Item 2'', TaxCode = 3, Quantity = 3, UnitPrice = 1 / 8,
        Discount = 0 \<rparr>,
      \<lparr> Item.ID = ''3'', Description = ''Item 3'', TaxCode = 1, Quantity = 1, UnitPrice = 1180,
        Discount = 0 \<rparr>])) =
     mset [\<lparr> models_VATTOTAL.VATRATE = ''C'', NETTAMOUNT = ''0.38'', TAXAMOUNT = ''-0.01'' \<rparr>,
           \<lparr> models_VATTOTAL.VATRATE = ''A'', NETTAMOUNT = ''5237.29'',
              TAXAMOUNT = ''942.71'' \<rparr>] \<and>
   ItemProcessResponse.TOTALS (ProcessItems exact_stdlib
     [\<lparr> Item.ID = ''1'', Description = ''Item 1'', TaxCode = 1, Quantity = 5, UnitPrice = 2000,
        Discount = 5000 \<rparr>,
      \<lparr> Item.ID = ''2'', Description = ''Item 2'', TaxCode = 3, Quantity = 3, UnitPrice = 1 / 8,
        Discount = 0 \<rparr>,
      \<lparr> Item.ID = ''3'', Description = ''Item 3'', TaxCode = 1, Quantity = 1, UnitPrice = 1180,
        Discount = 0 \<rparr>]) =
     \<lparr> TOTALTAXEXCL = 523767 / 100, TOTALTAXINCL = 49443 / 8, DISCOUNT = 5000 \<rparr>"
proof -
  let ?items = "[\<lparr> Item.ID = ''1'', Description = ''Item 1'', TaxCode = 1, Quantity = 5,
                    UnitPrice = 2000, Discount = 5000 \<rparr>,
                 \<lparr> Item.ID = ''2'', Description = ''Item 2'', TaxCode = 3, Quantity = 3,
                    UnitPrice = 1 / 8, Discount = 0 \<rparr>,
                 \<lparr> Item.ID = ''3'', Description = ''Item 3'', TaxCode = 1, Quantity = 1,
                    UnitPrice = 1180, Discount = 0 \<rparr>] :: rat Item list"
  have range: "\<forall>m. mset (map_range exact_stdlib m) = mset m"
    by (simp add: exact_stdlib_fields)
  have n1: "NetAmount exact_stdlib 1 5000 = 423729 / 100"
    by code_simp
  have n2: "NetAmount exact_stdlib 3 (3 / 8) = 38 / 100"
    by code_simp
  have n3: "NetAmount exact_stdlib 1 1180 = 1000"
    by code_simp
  have t1: "ValueAddedTaxAmount exact_stdlib 1 5000 = 76271 / 100"
    by code_simp
  have t2: "ValueAddedTaxAmount exact_stdlib 3 (3 / 8) = - 1 / 100"
    by code_simp
  have t3: "ValueAddedTaxAmount exact_stdlib 1 1180 = 180"
    by code_simp
  have s1: "exact_Sprintf_2f (523729 / 100) = ''5237.29''"
    by code_simp
  have s2: "exact_Sprintf_2f (94271 / 100) = ''942.71''"
    by code_simp
  have s3: "exact_Sprintf_2f (19 / 50) = ''0.38''"
    by code_simp
  have s4: "exact_Sprintf_2f (- (1 / 100)) = ''-0.01''"
    by code_simp
  have ids: "ValueAddedTaxID exact_stdlib 1 = ''A''" "ValueAddedTaxID exact_stdlib 3 = ''C''"
    by (simp_all add: ValueAddedTaxID_def ParseTaxCode_def standardVAT_def zeroVAT_def)
  have eq: "r = \<lparr> TOTALTAXEXCL = TOTALTAXEXCL r, TOTALTAXINCL = TOTALTAXINCL r,
                  DISCOUNT = DISCOUNT r \<rparr>" for r :: "rat TOTALS"
    by simp
  note th = ProcessItems_renders_items_and_sums [OF range, of ?items]
  have w1: "ItemProcessResponse.ITEMS (ProcessItems exact_stdlib ?items) =
     [\<lparr> ITEM.ID = ''1'', DESC = ''Item 1'', QTY = 5, TAXCODE = 1, AMT = 10000 \<rparr>,
      \<lparr> ITEM.ID = ''2'', DESC = ''Item 2'', QTY = 3, TAXCODE = 3, AMT = 3 / 8 \<rparr>,
      \<lparr> ITEM.ID = ''3'', DESC = ''Item 3'', QTY = 1, TAXCODE = 1, AMT = 1180 \<rparr>]"
    using th [THEN conjunct1] by (simp add: exact_stdlib_fields)
  have w2: "set (map models_VATTOTAL.VATRATE
              (ItemProcessResponse.VATTOTALS (ProcessItems exact_stdlib ?items))) = {''A'', ''C''}"
    using th [THEN conjunct2, THEN conjunct1] by (simp add: ids insert_commute)
  have w7: "mset (ItemProcessResponse.VATTOTALS (ProcessItems exact_stdlib ?items)) =
     mset [\<lparr> models_VATTOTAL.VATRATE = ''C'', NETTAMOUNT = ''0.38'', TAXAMOUNT = ''-0.01'' \<rparr>,
           \<lparr> models_VATTOTAL.VATRATE = ''A'', NETTAMOUNT = ''5237.29'',
              TAXAMOUNT = ''942.71'' \<rparr>]"
    using th [THEN conjunct2, THEN conjunct2, THEN conjunct2, THEN conjunct1]
    by (simp add: exact_stdlib_fields n1 n2 n3 t1 t2 t3 s1 s2 s3 s4 ids Let_def)
  have w4: "DISCOUNT (ItemProcessResponse.TOTALS (ProcessItems exact_stdlib ?items)) = 5000"
    using th [THEN conjunct2, THEN conjunct2, THEN conjunct2, THEN conjunct2, THEN conjunct1]
    by (simp add: exact_stdlib_fields)
  have w5: "TOTALTAXEXCL (ItemProcessResponse.TOTALS (ProcessItems exact_stdlib ?items)) =
              523767 / 100"
    using th [THEN conjunct2, THEN conjunct2, THEN conjunct2, THEN conjunct2, THEN conjunct2,
              THEN conjunct1]
    by (simp add: exact_stdlib_fields n1 n2 n3)
  have w6: "TOTALTAXINCL (ItemProcessResponse.TOTALS (ProcessItems exact_stdlib ?items)) =
              49443 / 8"
    using th [THEN conjunct2, THEN conjunct2, THEN conjunct2, THEN conjunct2, THEN conjunct2,
              THEN conjunct2]
    by (simp add: exact_stdlib_fields)
  have w456: "ItemProcessResponse.TOTALS (ProcessItems exact_stdlib ?items) =
     \<lparr> TOTALTAXEXCL = 523767 / 100, TOTALTAXINCL = 49443 / 8, DISCOUNT = 5000 \<rparr>"
    by (subst eq) (simp only: w4 w5 w6)
  show ?thesis
    by (intro conjI range w1 w2 w7 w456)
qed

section \<open>Properties of the signer\<close>

lemma Sign_Inr_iff:
  "Sign c k p = Inr s \<longleftrightarrow>
     rsa_SignPKCS1v15 c k (sha1_Sum c p) = Inr s \<and>
     rsa_VerifyPKCS1v15 c (PublicKey c k) (sha1_Sum c p) s = None"
  by (auto simp: Sign_def signPayload_def verifySignature_def split: sum.splits option.splits)

lemma SignPayload_Inr_iff:
  "SignPayload c k p = Inr s \<longleftrightarrow>
     rsa_SignPKCS1v15 c k (sha1_Sum c p) = Inr s \<and>
     VerifySignature c (PublicKey c k) p (base64_EncodeToString c s) = None"
  by (auto simp: SignPayload_def signPayload_def split: sum.splits option.splits)

lemma VerifySignature_None_iff:
  "VerifySignature c pk p t = None \<longleftrightarrow>
     (\<exists>sg. base64_DecodeString c t = Inr sg \<and> rsa_VerifyPKCS1v15 c pk (sha1_Sum c p) sg = None)"
  by (auto simp: VerifySignature_def split: sum.splits option.splits)

text \<open>
  Claim C7. Each of the two signing entry points hands a signature to its caller only
  when its own verification step accepted that signature for the same payload and the
  public half of the same key: \<^verbatim>\<open>Sign\<close> (receipt path) checks the raw signature
  against the SHA-1 digest of the payload, \<^verbatim>\<open>SignPayload\<close> (report path) checks the
  base64 text of the signature with \<^verbatim>\<open>VerifySignature\<close>. Whenever a signature was
  produced and that verification step reports an error, the entry point returns an
  error and no signature.
\<close>

theorem Sign_returns_only_verified_signatures:
  "(Sign c k p = Inr s \<longrightarrow>
      verifySignature c (PublicKey c k) (sha1_Sum c p) s = None) \<and>
   (SignPayload c k p = Inr s \<longrightarrow>
      VerifySignature c (PublicKey c k) p (base64_EncodeToString c s) = None) \<and>
   (signPayload c k p = Inr s' \<and>
      verifySignature c (PublicKey c k) (sha1_Sum c p) s' \<noteq> None \<longrightarrow>
      (\<exists>e. Sign c k p = Inl e)) \<and>
   (signPayload c k p = Inr s' \<and>
      VerifySignature c (PublicKey c k) p (base64_EncodeToString c s') \<noteq> None \<longrightarrow>
      (\<exists>e. SignPayload c k p = Inl e))"
  by (auto simp: Sign_def SignPayload_def split: sum.splits option.splits)

theorem Sign_returns_only_verified_signatures_witness:
  "Sign demo_crypto ''key'' ''abc'' = Inr ''keycba'' \<and>
   verifySignature demo_crypto (PublicKey demo_crypto ''key'') (sha1_Sum demo_crypto ''abc'')
     ''keycba'' = None \<and>
   SignPayload demo_crypto ''key'' ''abc'' = Inr ''keycba'' \<and>
   VerifySignature demo_crypto (PublicKey demo_crypto ''key'') ''abc''
     (base64_EncodeToString demo_crypto ''keycba'') = None \<and>
   signPayload demo_crypto ''worn'' ''abc'' = Inr ''cba'' \<and>
   verifySignature demo_crypto (PublicKey demo_crypto ''worn'') (sha1_Sum demo_crypto ''abc'')
     ''cba'' \<noteq> None \<and>
   VerifySignature demo_crypto (PublicKey demo_crypto ''worn'') ''abc''
     (base64_EncodeToString demo_crypto ''cba'') \<noteq> None \<and>
   (\<exists>e. Sign demo_crypto ''worn'' ''abc'' = Inl e) \<and>
   (\<exists>e. SignPayload demo_crypto ''worn'' ''abc'' = Inl e)"
  using Sign_returns_only_verified_signatures
          [of demo_crypto "''key''" "''abc''" "''keycba''" "''cba''"]
        Sign_returns_only_verified_signatures
          [of demo_crypto "''worn''" "''abc''" "''cba''" "''cba''"]
  by (simp add: demo_crypto_def Sign_def SignPayload_def signPayload_def verifySignature_def
        VerifySignature_def)

text \<open>
  Claim C10. Provided the base64 codec decodes what it encoded, the two entry points
  agree: each returns exactly the PKCS#1 v1.5 signature of the SHA-1 digest of the
  payload, \<^verbatim>\<open>Sign\<close> returns a signature exactly when \<^verbatim>\<open>SignPayload\<close> returns the same
  one, one fails exactly when the other fails, and a signature returned by either is
  accepted by \<^verbatim>\<open>VerifySignature\<close> under the public half of the key.
\<close>

theorem Sign_SignPayload_equivalent:
  assumes "\<forall>b. base64_DecodeString c (base64_EncodeToString c b) = Inr b"
  shows "(Sign c k p = Inr s \<longleftrightarrow> SignPayload c k p = Inr s) \<and>
         (isl (Sign c k p) \<longleftrightarrow> isl (SignPayload c k p)) \<and>
         (Sign c k p = Inr s \<longrightarrow>
            rsa_SignPKCS1v15 c k (sha1_Sum c p) = Inr s \<and>
            VerifySignature c (PublicKey c k) p (base64_EncodeToString c s) = None) \<and>
         (SignPayload c k p = Inr s \<longrightarrow>
            rsa_SignPKCS1v15 c k (sha1_Sum c p) = Inr s \<and>
            VerifySignature c (PublicKey c k) p (base64_EncodeToString c s) = None)"
proof -
  have verify: "VerifySignature c pk p (base64_EncodeToString c b) = None \<longleftrightarrow>
                rsa_VerifyPKCS1v15 c pk (sha1_Sum c p) b = None" for pk b
    using assms by (simp add: VerifySignature_None_iff)
  have same: "Sign c k p = Inr t \<longleftrightarrow> SignPayload c k p = Inr t" for t
    by (simp add: Sign_Inr_iff SignPayload_Inr_iff verify)
  have "isl (Sign c k p) \<longleftrightarrow> isl (SignPayload c k p)"
  proof (cases "Sign c k p")
    case (Inl e)
    have "\<not> (\<exists>t. SignPayload c k p = Inr t)"
      using Inl same by auto
    then have "isl (SignPayload c k p)"
      by (cases "SignPayload c k p") auto
    with Inl show ?thesis by simp
  next
    case (Inr t)
    then have "SignPayload c k p = Inr t" using same by simp
    with Inr show ?thesis by simp
  qed
  moreover have "SignPayload c k p = Inr s \<longrightarrow>
            rsa_SignPKCS1v15 c k (sha1_Sum c p) = Inr s \<and>
            VerifySignature c (PublicKey c k) p (base64_EncodeToString c s) = None"
    by (simp add: SignPayload_Inr_iff)
  ultimately show ?thesis using same by blast
qed

theorem Sign_SignPayload_equivalent_witness:
  "(\<forall>b. base64_DecodeString demo_crypto (base64_EncodeToString demo_crypto b) = Inr b) \<and>
   Sign demo_crypto ''key'' ''abc'' = Inr ''keycba'' \<and>
   SignPayload demo_crypto ''key'' ''abc'' = Inr ''keycba'' \<and>
   isl (Sign demo_crypto ''worn'' ''abc'') \<and>
   isl (SignPayload demo_crypto ''worn'' ''abc'') \<and>
   rsa_SignPKCS1v15 demo_crypto ''key'' (sha1_Sum demo_crypto ''abc'') = Inr ''keycba'' \<and>
   VerifySignature demo_crypto (PublicKey demo_crypto ''key'') ''abc''
     (base64_EncodeToString demo_crypto ''keycba'') = None"
proof -
  have rt: "\<forall>b. base64_DecodeString demo_crypto (base64_EncodeToString demo_crypto b) = Inr b"
    by (simp add: demo_crypto_def)
  have s: "Sign demo_crypto ''key'' ''abc'' = Inr ''keycba''"
    by (simp add: demo_crypto_def Sign_def signPayload_def verifySignature_def)
  have w: "isl (Sign demo_crypto ''worn'' ''abc'')"
    by (simp add: demo_crypto_def Sign_def signPayload_def verifySignature_def)
  show ?thesis
    using rt s w
      Sign_SignPayload_equivalent [OF rt, of "''key''" "''abc''" "''keycba''"]
      Sign_SignPayload_equivalent [OF rt, of "''worn''" "''abc''" "''cba''"]
    by simp
qed

section \<open>Properties of payment-type parsing\<close>

text \<open>
  Claim C6 (evaluation of the code where it departs from the claim). An argument of
  dynamic type \<^verbatim>\<open>int64\<close> enters the first case of the type switch and then fails the
  assertion \<^verbatim>\<open>i.(int)\<close>: \<^verbatim>\<open>ParsePayment(int64(3))\<close> panics instead of returning the
  credit-card payment type.
\<close>

theorem ParsePayment_int64_panics:
  "ParsePayment ToUpper (AnyInt64 3) = Inl InterfaceConversion"
  by simp

lemma ParsePayment_returns_unless_int64:
  "(\<exists>t. ParsePayment ToUpper v = Inr t) \<longleftrightarrow> (\<forall>n. v \<noteq> AnyInt64 n)"
  by (cases v) auto

lemma ParsePayment_int_values:
  "ParsePayment ToUpper (AnyInt 1) = Inr ''CASH''"
  "ParsePayment ToUpper (AnyInt 2) = Inr ''CHEQUE''"
  "ParsePayment ToUpper (AnyInt 3) = Inr ''CCARD''"
  "ParsePayment ToUpper (AnyInt 4) = Inr ''EMONEY''"
  "ParsePayment ToUpper (AnyInt 5) = Inr ''INVOICE''"
  "ParsePayment ToUpper (AnyInt 0) = Inr ''CASH''"
  by (simp_all add: ParsePayment_int_def CashPaymentType_def ChequePaymentType_def
        CreditCardPaymentType_def ElectronicPaymentType_def InvoicePaymentType_def)

section \<open>Properties of the signed envelope\<close>

text \<open>
  Claim C3. Whenever \<^verbatim>\<open>ReceiptBytes\<close> or \<^verbatim>\<open>ReportBytes\<close> returns an envelope, the
  envelope is the XML declaration, then \<^verbatim>\<open><EFDMS>\<close>, then the canonical payload (the
  marshalled document after the tag stripping and, for reports, the two forced
  amounts), then the base64 text of a signature between the \<^verbatim>\<open>EFDMSSIGNATURE\<close> tags.
  That signature is the PKCS#1 v1.5 signature of the SHA-1 digest of exactly these
  payload bytes, and it was accepted by the self-verification over the same bytes: the
  declaration and the wrapper are put around the signed bytes, and the signed bytes
  themselves appear in the envelope unchanged.
\<close>

theorem envelope_signature_covers_embedded_payload:
  "(ReceiptBytes c rt k params customer items payments = Inr out \<longrightarrow>
      (\<exists>marshalled payload signature.
         xml_Marshal_RCT rt (generateReceipt rt params customer items payments) = Inr marshalled \<and>
         payload = strings_Replace rt
                     [''<PAYMENT>'', [], ''</PAYMENT>'', [], ''<VATTOTAL>'', [], ''</VATTOTAL>'', []]
                     marshalled \<and>
         out = xml_Header @ ''<EFDMS>'' @ payload @ ''<EFDMSSIGNATURE>'' @
               base64_EncodeToString c signature @ ''</EFDMSSIGNATURE></EFDMS>'' \<and>
         rsa_SignPKCS1v15 c k (sha1_Sum c payload) = Inr signature \<and>
         rsa_VerifyPKCS1v15 c (PublicKey c k) (sha1_Sum c payload) signature = None)) \<and>
   (ReportBytes c rt k rparams address vats rpayments totals = Inr rout \<longrightarrow>
      (\<exists>marshalled payload signature.
         xml_Marshal_ZREPORT rt (generateZReport rt rparams address vats rpayments totals) =
           Inr marshalled \<and>
         payload = formatReportXmlPayload rt marshalled totals vats rpayments \<and>
         rout = xml_Header @ ''<EFDMS>'' @ payload @ ''<EFDMSSIGNATURE>'' @
               base64_EncodeToString c signature @ ''</EFDMSSIGNATURE></EFDMS>'' \<and>
         rsa_SignPKCS1v15 c k (sha1_Sum c payload) = Inr signature \<and>
         VerifySignature c (PublicKey c k) payload (base64_EncodeToString c signature) = None))"
proof (intro conjI impI)
  assume "ReceiptBytes c rt k params customer items payments = Inr out"
  then show "\<exists>marshalled payload signature.
         xml_Marshal_RCT rt (generateReceipt rt params customer items payments) = Inr marshalled \<and>
         payload = strings_Replace rt
                     [''<PAYMENT>'', [], ''</PAYMENT>'', [], ''<VATTOTAL>'', [], ''</VATTOTAL>'', []]
                     marshalled \<and>
         out = xml_Header @ ''<EFDMS>'' @ payload @ ''<EFDMSSIGNATURE>'' @
               base64_EncodeToString c signature @ ''</EFDMSSIGNATURE></EFDMS>'' \<and>
         rsa_SignPKCS1v15 c k (sha1_Sum c payload) = Inr signature \<and>
         rsa_VerifyPKCS1v15 c (PublicKey c k) (sha1_Sum c payload) signature = None"
    by (auto simp: ReceiptBytes_def Let_def encodeBase64Bytes_def Sign_Inr_iff
          split: sum.splits)
next
  assume "ReportBytes c rt k rparams address vats rpayments totals = Inr rout"
  then show "\<exists>marshalled payload signature.
         xml_Marshal_ZREPORT rt (generateZReport rt rparams address vats rpayments totals) =
           Inr marshalled \<and>
         payload = formatReportXmlPayload rt marshalled totals vats rpayments \<and>
         rout = xml_Header @ ''<EFDMS>'' @ payload @ ''<EFDMSSIGNATURE>'' @
               base64_EncodeToString c signature @ ''</EFDMSSIGNATURE></EFDMS>'' \<and>
         rsa_SignPKCS1v15 c k (sha1_Sum c payload) = Inr signature \<and>
         VerifySignature c (PublicKey c k) payload (base64_EncodeToString c signature) = None"
    by (auto simp: ReportBytes_def Let_def encodeBase64Bytes_def SignPayload_Inr_iff
          split: sum.splits)
qed

theorem envelope_signature_covers_embedded_payload_witness:
  "ReceiptBytes demo_crypto exact_stdlib ''key''
     \<lparr> ReceiptParams.Date = ''2022-11-17'', ReceiptParams.Time = ''14:00:00'',
       ReceiptParams.TIN = ''TQR6W5FWC'', ReceiptParams.RegistrationID = ''262T3FSSS'',
       ReceiptParams.EFDSerial = ''SGSYSTHSSJ'', ReceiptNum = [], DailyCounter = 1,
       GlobalCounter = 100, ZNum = [], ReceiptVNum = [] \<rparr>
     \<lparr> Customer.Type = 5, Customer.ID = ''516221638383907151'', Customer.Name = ''John doe'',
       Customer.Mobile = ''255765992153'' \<rparr>
     [\<lparr> Item.ID = ''1'', Description = ''Item 1'', TaxCode = 1, Quantity = 5, UnitPrice = 2000,
        Discount = 5000 \<rparr>]
     [\<lparr> Payment.Type = ''CASH'', Amount = 5000 \<rparr>] =
   Inr (xml_Header @ ''<EFDMS>'' @
        ''<RCT><DATE>2022-11-17</DATE><PAYMENTS><PMTTYPE>CASH</PMTTYPE><PMTAMOUNT>5000.00</PMTAMOUNT></PAYMENTS></RCT>'' @
        ''<EFDMSSIGNATURE>'' @
        ''key'' @ rev ''<RCT><DATE>2022-11-17</DATE><PAYMENTS><PMTTYPE>CASH</PMTTYPE><PMTAMOUNT>5000.00</PMTAMOUNT></PAYMENTS></RCT>'' @
        ''</EFDMSSIGNATURE></EFDMS>'') \<and>
   ReportBytes demo_crypto exact_stdlib ''key''
     \<lparr> ReportParams.Date = ''2022-11-17'', ReportParams.Time = ''23:59:00'',
       ReportParams.VRN = ''NOT REGISTERED'', ReportParams.TIN = ''TQR6W5FWC'', UIN = ''U1'',
       TaxOffice = ''Ilala'', ReportParams.RegistrationID = ''262T3FSSS'', ZNumber = ''20221117'',
       ReportParams.EFDSerial = ''SGSYSTHSSJ'', RegistrationDate = ''2022-01-01'' \<rparr>
     \<lparr> Address.Name = ''Shop'', Street = ''Street'', Address.Mobile = ''255765992153'',
       City = ''Dar'', Country = ''Tanzania'' \<rparr>
     []
     [\<lparr> Payment.Type = ''CASH'', Amount = 5000 \<rparr>]
     \<lparr> DailyTotalAmount = 5000, Gross = 5000, Corrections = 1 / 8, Discounts = 0,
       Surcharges = 0, TicketsVoid = 0, TicketsVoidTotal = 0, TicketsFiscal = 1,
       TicketsNonFiscal = 0 \<rparr> =
   Inr (xml_Header @ ''<EFDMS>'' @
        ''<ZREPORT><DATE>2022-11-17</DATE><PAYMENTS><PMTTYPE>CASH</PMTTYPE><PMTAMOUNT>5000.00</PMTAMOUNT></PAYMENTS></ZREPORT>'' @
        ''<EFDMSSIGNATURE>'' @
        ''key'' @ rev ''<ZREPORT><DATE>2022-11-17</DATE><PAYMENTS><PMTTYPE>CASH</PMTTYPE><PMTAMOUNT>5000.00</PMTAMOUNT></PAYMENTS></ZREPORT>'' @
        ''</EFDMSSIGNATURE></EFDMS>'')"
proof -
  let ?params = "\<lparr> ReceiptParams.Date = ''2022-11-17'', ReceiptParams.Time = ''14:00:00'',
       ReceiptParams.TIN = ''TQR6W5FWC'', ReceiptParams.RegistrationID = ''262T3FSSS'',
       ReceiptParams.EFDSerial = ''SGSYSTHSSJ'', ReceiptNum = [], DailyCounter = 1,
       GlobalCounter = 100, ZNum = [], ReceiptVNum = [] \<rparr>"
  let ?customer = "\<lparr> Customer.Type = 5, Customer.ID = ''516221638383907151'',
       Customer.Name = ''John doe'', Customer.Mobile = ''255765992153'' \<rparr>"
  let ?items = "[\<lparr> Item.ID = ''1'', Description = ''Item 1'', TaxCode = 1, Quantity = 5,
       UnitPrice = 2000, Discount = 5000 \<rparr>] :: rat Item list"
  let ?payments = "[\<lparr> Payment.Type = ''CASH'', Amount = 5000 \<rparr>] :: rat Payment list"
  let ?rparams = "\<lparr> ReportParams.Date = ''2022-11-17'', ReportParams.Time = ''23:59:00'',
       ReportParams.VRN = ''NOT REGISTERED'', ReportParams.TIN = ''TQR6W5FWC'', UIN = ''U1'',
       TaxOffice = ''Ilala'', ReportParams.RegistrationID = ''262T3FSSS'', ZNumber = ''20221117'',
       ReportParams.EFDSerial = ''SGSYSTHSSJ'', RegistrationDate = ''2022-01-01'' \<rparr>"
  let ?address = "\<lparr> Address.Name = ''Shop'', Street = ''Street'',
       Address.Mobile = ''255765992153'', City = ''Dar'', Country = ''Tanzania'' \<rparr>"
  let ?totals = "\<lparr> DailyTotalAmount = 5000, Gross = 5000, Corrections = 1 / 8, Discounts = 0,
       Surcharges = 0, TicketsVoid = 0, TicketsVoidTotal = 0, TicketsFiscal = 1,
       TicketsNonFiscal = 0 \<rparr> :: rat ReportTotals"
  let ?rct = "''<RCT><DATE>2022-11-17</DATE><PAYMENTS><PMTTYPE>CASH</PMTTYPE><PMTAMOUNT>5000.00</PMTAMOUNT></PAYMENTS></RCT>''"
  let ?zrep = "''<ZREPORT><DATE>2022-11-17</DATE><PAYMENTS><PMTTYPE>CASH</PMTTYPE><PMTAMOUNT>5000.00</PMTAMOUNT></PAYMENTS></ZREPORT>''"
  let ?out1 = "xml_Header @ ''<EFDMS>'' @ ?rct @ ''<EFDMSSIGNATURE>'' @ ''key'' @ rev ?rct @
               ''</EFDMSSIGNATURE></EFDMS>''"
  let ?out2 = "xml_Header @ ''<EFDMS>'' @ ?zrep @ ''<EFDMSSIGNATURE>'' @ ''key'' @ rev ?zrep @
               ''</EFDMSSIGNATURE></EFDMS>''"
  have receipt: "ReceiptBytes demo_crypto exact_stdlib ''key'' ?params ?customer ?items ?payments =
                 Inr ?out1"
    by code_simp
  have marshal: "xml_Marshal_ZREPORT exact_stdlib
                   (generateZReport exact_stdlib ?rparams ?address [] ?payments ?totals) =
                 Inr ''<ZREPORT><DATE>2022-11-17</DATE><PAYMENTS><PAYMENT><PMTTYPE>CASH</PMTTYPE><PMTAMOUNT>5000.00</PMTAMOUNT></PAYMENT></PAYMENTS></ZREPORT>''"
    by code_simp
  have format: "formatReportXmlPayload exact_stdlib
                  ''<ZREPORT><DATE>2022-11-17</DATE><PAYMENTS><PAYMENT><PMTTYPE>CASH</PMTTYPE><PMTAMOUNT>5000.00</PMTAMOUNT></PAYMENT></PAYMENTS></ZREPORT>''
                  ?totals [] ?payments = ?zrep"
    by code_simp
  have sign: "SignPayload demo_crypto ''key'' ?zrep = Inr (''key'' @ rev ?zrep)"
    by (rule demo_crypto_signs) simp_all
  have enc: "encodeBase64Bytes demo_crypto (''key'' @ rev ?zrep) = ''key'' @ rev ?zrep"
    by (simp only: encodeBase64Bytes_def demo_crypto_def crypto.simps)
  have report: "ReportBytes demo_crypto exact_stdlib ''key'' ?rparams ?address [] ?payments ?totals =
                Inr ?out2"
    by (simp only: ReportBytes_def Let_def marshal sum.case format sign enc append_assoc)
  from receipt report
    envelope_signature_covers_embedded_payload
      [of demo_crypto exact_stdlib "''key''" ?params ?customer ?items ?payments ?out1
          ?rparams ?address "[]" ?payments ?totals ?out2]
  show ?thesis by (rule_tac conjI)
qed

section \<open>Properties of the rounding stage\<close>

lemma generateZReport_TOTALS:
  "ZREPORT.TOTALS (generateZReport rt params address vats payments totals) =
     \<lparr> DAILYTOTALAMOUNT = DailyTotalAmount totals, GROSS = Gross totals,
       CORRECTIONS = Corrections totals, DISCOUNTS = Discounts totals,
       SURCHARGES = Surcharges totals, TICKETSVOID = TicketsVoid totals,
       TICKETSVOIDTOTAL = TicketsVoidTotal totals, TICKETSFISCAL = TicketsFiscal totals,
       TICKETSNONFISCAL = TicketsNonFiscal totals \<rparr>"
  by (simp add: generateZReport_def Let_def)

lemma generateReceipt_ITEMS:
  "RCT.ITEMS (generateReceipt rt params customer items payments) =
   ItemProcessResponse.ITEMS (ProcessItems rt items)"
  by (simp add: generateReceipt_def RCT_RoundOff_def Let_def)

text \<open>
  Claim C2 (evaluation of the code where it departs from the claim). The Z report that
  \<^verbatim>\<open>generateZReport\<close> hands to the serializer carries the totals exactly as supplied:
  with corrections of 0.125 the field \<^verbatim>\<open>CORRECTIONS\<close> is 0.125, where
  \<^verbatim>\<open>ZREPORT.RoundOff\<close>, had it been called, would have made it 0.13. The receipt that
  \<^verbatim>\<open>generateReceipt\<close> hands to the serializer has its three totals rounded (5000.375
  has become 5000.38), but the amount of an item is left as computed: 3 times 0.125 is
  0.375.
\<close>

theorem generated_documents_carry_unrounded_amounts:
  "CORRECTIONS (ZREPORT.TOTALS
     (generateZReport exact_stdlib (ReportRequest.Params demo_report)
        (ReportRequest.Address demo_report) (VATS demo_report)
        (ReportRequest.Payment demo_report) (Totals demo_report))) = 1 / 8 \<and>
   CORRECTIONS (ZREPORT.TOTALS
     (ZREPORT_RoundOff exact_stdlib
        (generateZReport exact_stdlib (ReportRequest.Params demo_report)
           (ReportRequest.Address demo_report) (VATS demo_report)
           (ReportRequest.Payment demo_report) (Totals demo_report)))) = 13 / 100 \<and>
   map ITEM.AMT (RCT.ITEMS
     (generateReceipt exact_stdlib (ReceiptRequest.Params demo_receipt)
        (ReceiptRequest.Customer demo_receipt) (Items demo_receipt) (Payments demo_receipt))) =
     [10000, 3 / 8] \<and>
   TOTALTAXINCL (RCT.TOTALS
     (generateReceipt exact_stdlib (ReceiptRequest.Params demo_receipt)
        (ReceiptRequest.Customer demo_receipt) (Items demo_receipt) (Payments demo_receipt))) =
     500038 / 100"
  by code_simp

section \<open>Properties of the submission protocol\<close>

lemma checkNetworkError_context:
  "checkNetworkError (Some cause) prefix (Some err) =
   Some (NetworkError (Some cause) (prefix @ '': context error (canceled or deadline exceeded)''))"
  by (simp add: checkNetworkError_def)

text \<open>
  Claim C8, as the code has it. When the payload was built and the request was
  created, and \<^verbatim>\<open>client.Do\<close> fails while the context is canceled or past its deadline,
  \<^verbatim>\<open>submitReceipt\<close> and \<^verbatim>\<open>submitReport\<close> return no response and a \<^verbatim>\<open>*NetworkError\<close>
  that \<^verbatim>\<open>IsNetworkError\<close> recognises and that unwraps to the error of the context.
  When \<^verbatim>\<open>client.Do\<close> returns a response with status 500 whose body was read and
  decodes as the error envelope of the authority, they return no response and the
  error \<^verbatim>\<open>registration error: \<close> followed by the decoded message, which is not a
  network error. When \<^verbatim>\<open>client.Do\<close> returns a response, of whatever status, and
  reading its body fails, they return no response and the error of the read wrapped
  as \<^verbatim>\<open>receipt upload failed : \<close> resp. \<^verbatim>\<open>report submit failed : \<close>, whatever the
  state of the context: the returned error is no \<^verbatim>\<open>*NetworkError\<close>, \<^verbatim>\<open>IsNetworkError\<close>
  recognises it only if it recognises the error of the read, and so not when that
  error is the cancellation or the expiry of the context.
\<close>

theorem submission_classifies_Do_failure_and_status_500:
  "(ReceiptBytes c rt k (ReceiptRequest.Params rct) (ReceiptRequest.Customer rct) (Items rct)
       (Payments rct) = Inr payload \<and>
    NewRequestWithContext ex ''POST'' url payload = Inr req0 \<and>
    client_Do ex (set_headers c SubmitReceiptRoutingKey (CertSerial headers) (BearerToken headers)
                    req0) = DoError err \<and>
    ctx_Err ex = Some cause \<longrightarrow>
    submitReceipt c rt ex url headers k rct =
      (None, Some (NetworkError (Some cause)
                     ''receipt upload: context error (canceled or deadline exceeded)'')) \<and>
    IsNetworkError (NetworkError (Some cause)
                     ''receipt upload: context error (canceled or deadline exceeded)'') \<and>
    Unwrap (NetworkError (Some cause)
              ''receipt upload: context error (canceled or deadline exceeded)'') = Some cause) \<and>
   (ReceiptBytes c rt k (ReceiptRequest.Params rct) (ReceiptRequest.Customer rct) (Items rct)
       (Payments rct) = Inr payload \<and>
    NewRequestWithContext ex ''POST'' url payload = Inr req0 \<and>
    client_Do ex (set_headers c SubmitReceiptRoutingKey (CertSerial headers) (BearerToken headers)
                    req0) = DoResponse 500 (Inr body) \<and>
    xml_Decode_Error rt body = Inr message \<longrightarrow>
    submitReceipt c rt ex url headers k rct =
      (None, Some (ErrorString (''registration error: '' @ message))) \<and>
    \<not> IsNetworkError (ErrorString (''registration error: '' @ message))) \<and>
   (ReceiptBytes c rt k (ReceiptRequest.Params rct) (ReceiptRequest.Customer rct) (Items rct)
       (Payments rct) = Inr payload \<and>
    NewRequestWithContext ex ''POST'' url payload = Inr req0 \<and>
    client_Do ex (set_headers c SubmitReceiptRoutingKey (CertSerial headers) (BearerToken headers)
                    req0) = DoResponse status (Inl readErr) \<longrightarrow>
    submitReceipt c rt ex url headers k rct =
      (None, Some (WrapError ''receipt upload failed : '' readErr)) \<and>
    (\<forall>e msg. WrapError ''receipt upload failed : '' readErr \<noteq> NetworkError e msg) \<and>
    IsNetworkError (WrapError ''receipt upload failed : '' readErr) = IsNetworkError readErr \<and>
    (readErr = ContextCanceled \<or> readErr = ContextDeadlineExceeded \<longrightarrow>
     \<not> IsNetworkError (WrapError ''receipt upload failed : '' readErr))) \<and>
   (ReportBytes c rt k (ReportRequest.Params report) (ReportRequest.Address report) (VATS report)
       (ReportRequest.Payment report) (Totals report) = Inr rpayload \<and>
    NewRequestWithContext ex ''POST'' url rpayload = Inr rreq0 \<and>
    client_Do ex (set_headers c SubmitReportRoutingKey (CertSerial headers) (BearerToken headers)
                    rreq0) = DoError err \<and>
    ctx_Err ex = Some cause \<longrightarrow>
    submitReport c rt ex url headers k report =
      (None, Some (NetworkError (Some cause)
                     ''submit report: context error (canceled or deadline exceeded)'')) \<and>
    IsNetworkError (NetworkError (Some cause)
                     ''submit report: context error (canceled or deadline exceeded)'') \<and>
    Unwrap (NetworkError (Some cause)
              ''submit report: context error (canceled or deadline exceeded)'') = Some cause) \<and>
   (ReportBytes c rt k (ReportRequest.Params report) (ReportRequest.Address report) (VATS report)
       (ReportRequest.Payment report) (Totals report) = Inr rpayload \<and>
    NewRequestWithContext ex ''POST'' url rpayload = Inr rreq0 \<and>
    client_Do ex (set_headers c SubmitReportRoutingKey (CertSerial headers) (BearerToken headers)
                    rreq0) = DoResponse 500 (Inr body) \<and>
    xml_Decode_Error rt body = Inr message \<longrightarrow>
    submitReport c rt ex url headers k report =
      (None, Some (ErrorString (''registration error: '' @ message))) \<and>
    \<not> IsNetworkError (ErrorString (''registration error: '' @ message))) \<and>
   (ReportBytes c rt k (ReportRequest.Params report) (ReportRequest.Address report) (VATS report)
       (ReportRequest.Payment report) (Totals report) = Inr rpayload \<and>
    NewRequestWithContext ex ''POST'' url rpayload = Inr rreq0 \<and>
    client_Do ex (set_headers c SubmitReportRoutingKey (CertSerial headers) (BearerToken headers)
                    rreq0) = DoResponse status (Inl readErr) \<longrightarrow>
    submitReport c rt ex url headers k report =
      (None, Some (WrapError ''report submit failed : '' readErr)) \<and>
    (\<forall>e msg. WrapError ''report submit failed : '' readErr \<noteq> NetworkError e msg) \<and>
    IsNetworkError (WrapError ''report submit failed : '' readErr) = IsNetworkError readErr \<and>
    (readErr = ContextCanceled \<or> readErr = ContextDeadlineExceeded \<longrightarrow>
     \<not> IsNetworkError (WrapError ''report submit failed : '' readErr)))"
proof (intro conjI)
  show "ReceiptBytes c rt k (ReceiptRequest.Params rct) (ReceiptRequest.Customer rct) (Items rct)
       (Payments rct) = Inr payload \<and>
    NewRequestWithContext ex ''POST'' url payload = Inr req0 \<and>
    client_Do ex (set_headers c SubmitReceiptRoutingKey (CertSerial headers) (BearerToken headers)
                    req0) = DoError err \<and>
    ctx_Err ex = Some cause \<longrightarrow>
    submitReceipt c rt ex url headers k rct =
      (None, Some (NetworkError (Some cause)
                     ''receipt upload: context error (canceled or deadline exceeded)'')) \<and>
    IsNetworkError (NetworkError (Some cause)
                     ''receipt upload: context error (canceled or deadline exceeded)'') \<and>
    Unwrap (NetworkError (Some cause)
              ''receipt upload: context error (canceled or deadline exceeded)'') = Some cause"
    by (simp add: submitReceipt_def Let_def checkNetworkError_context)
  show "ReceiptBytes c rt k (ReceiptRequest.Params rct) (ReceiptRequest.Customer rct) (Items rct)
       (Payments rct) = Inr payload \<and>
    NewRequestWithContext ex ''POST'' url payload = Inr req0 \<and>
    client_Do ex (set_headers c SubmitReceiptRoutingKey (CertSerial headers) (BearerToken headers)
                    req0) = DoResponse 500 (Inr body) \<and>
    xml_Decode_Error rt body = Inr message \<longrightarrow>
    submitReceipt c rt ex url headers k rct =
      (None, Some (ErrorString (''registration error: '' @ message))) \<and>
    \<not> IsNetworkError (ErrorString (''registration error: '' @ message))"
    by (simp add: submitReceipt_def Let_def)
  show "ReceiptBytes c rt k (ReceiptRequest.Params rct) (ReceiptRequest.Customer rct) (Items rct)
       (Payments rct) = Inr payload \<and>
    NewRequestWithContext ex ''POST'' url payload = Inr req0 \<and>
    client_Do ex (set_headers c SubmitReceiptRoutingKey (CertSerial headers) (BearerToken headers)
                    req0) = DoResponse status (Inl readErr) \<longrightarrow>
    submitReceipt c rt ex url headers k rct =
      (None, Some (WrapError ''receipt upload failed : '' readErr)) \<and>
    (\<forall>e msg. WrapError ''receipt upload failed : '' readErr \<noteq> NetworkError e msg) \<and>
    IsNetworkError (WrapError ''receipt upload failed : '' readErr) = IsNetworkError readErr \<and>
    (readErr = ContextCanceled \<or> readErr = ContextDeadlineExceeded \<longrightarrow>
     \<not> IsNetworkError (WrapError ''receipt upload failed : '' readErr))"
    by (auto simp add: submitReceipt_def Let_def)
  show "ReportBytes c rt k (ReportRequest.Params report) (ReportRequest.Address report) (VATS report)
       (ReportRequest.Payment report) (Totals report) = Inr rpayload \<and>
    NewRequestWithContext ex ''POST'' url rpayload = Inr rreq0 \<and>
    client_Do ex (set_headers c SubmitReportRoutingKey (CertSerial headers) (BearerToken headers)
                    rreq0) = DoError err \<and>
    ctx_Err ex = Some cause \<longrightarrow>
    submitReport c rt ex url headers k report =
      (None, Some (NetworkError (Some cause)
                     ''submit report: context error (canceled or deadline exceeded)'')) \<and>
    IsNetworkError (NetworkError (Some cause)
                     ''submit report: context error (canceled or deadline exceeded)'') \<and>
    Unwrap (NetworkError (Some cause)
              ''submit report: context error (canceled or deadline exceeded)'') = Some cause"
    by (simp add: submitReport_def Let_def checkNetworkError_context)
  show "ReportBytes c rt k (ReportRequest.Params report) (ReportRequest.Address report) (VATS report)
       (ReportRequest.Payment report) (Totals report) = Inr rpayload \<and>
    NewRequestWithContext ex ''POST'' url rpayload = Inr rreq0 \<and>
    client_Do ex (set_headers c SubmitReportRoutingKey (CertSerial headers) (BearerToken headers)
                    rreq0) = DoResponse 500 (Inr body) \<and>
    xml_Decode_Error rt body = Inr message \<longrightarrow>
    submitReport c rt ex url headers k report =
      (None, Some (ErrorString (''registration error: '' @ message))) \<and>
    \<not> IsNetworkError (ErrorString (''registration error: '' @ message))"
    by (simp add: submitReport_def Let_def)
  show "ReportBytes c rt k (ReportRequest.Params report) (ReportRequest.Address report) (VATS report)
       (ReportRequest.Payment report) (Totals report) = Inr rpayload \<and>
    NewRequestWithContext ex ''POST'' url rpayload = Inr rreq0 \<and>
    client_Do ex (set_headers c SubmitReportRoutingKey (CertSerial headers) (BearerToken headers)
                    rreq0) = DoResponse status (Inl readErr) \<longrightarrow>
    submitReport c rt ex url headers k report =
      (None, Some (WrapError ''report submit failed : '' readErr)) \<and>
    (\<forall>e msg. WrapError ''report submit failed : '' readErr \<noteq> NetworkError e msg) \<and>
    IsNetworkError (WrapError ''report submit failed : '' readErr) = IsNetworkError readErr \<and>
    (readErr = ContextCanceled \<or> readErr = ContextDeadlineExceeded \<longrightarrow>
     \<not> IsNetworkError (WrapError ''report submit failed : '' readErr))"
    by (auto simp add: submitReport_def Let_def)
qed

lemma demo_receipt_payload:
  "\<exists>payload. ReceiptBytes demo_crypto exact_stdlib ''key'' (ReceiptRequest.Params demo_receipt)
      (ReceiptRequest.Customer demo_receipt) (Items demo_receipt) (Payments demo_receipt) =
      Inr payload"
proof -
  obtain doc where "xml_Marshal_RCT exact_stdlib
      (generateReceipt exact_stdlib (ReceiptRequest.Params demo_receipt)
         (ReceiptRequest.Customer demo_receipt) (Items demo_receipt) (Payments demo_receipt)) =
      Inr doc"
    using exact_stdlib_marshal_fields(1) by blast
  then show ?thesis
    by (simp add: ReceiptBytes_def Let_def demo_crypto_signs)
qed

lemma demo_report_payload:
  "\<exists>payload. ReportBytes demo_crypto exact_stdlib ''key'' (ReportRequest.Params demo_report)
      (ReportRequest.Address demo_report) (VATS demo_report) (ReportRequest.Payment demo_report)
      (Totals demo_report) = Inr payload"
proof -
  obtain doc where "xml_Marshal_ZREPORT exact_stdlib
      (generateZReport exact_stdlib (ReportRequest.Params demo_report)
         (ReportRequest.Address demo_report) (VATS demo_report)
         (ReportRequest.Payment demo_report) (Totals demo_report)) = Inr doc"
    using exact_stdlib_marshal_fields(2) by blast
  then show ?thesis
    by (simp add: ReportBytes_def Let_def demo_crypto_signs)
qed

lemma decode_Error_envelope_demo:
  "xml_Decode_Error exact_stdlib ''<Error><Message>invalid signature</Message></Error>'' =
   Inr ''invalid signature''"
  by (simp add: exact_stdlib_codec_fields decode_Error_envelope_def)

theorem submission_classifies_Do_failure_and_status_500_witness:
  "submitReceipt demo_crypto exact_stdlib exchange_Do_canceled ''https://vfd.example/api''
     demo_headers ''key'' demo_receipt =
     (None, Some (NetworkError (Some ContextCanceled)
                    ''receipt upload: context error (canceled or deadline exceeded)'')) \<and>
   submitReceipt demo_crypto exact_stdlib exchange_status_500 ''https://vfd.example/api''
     demo_headers ''key'' demo_receipt =
     (None, Some (ErrorString ''registration error: invalid signature'')) \<and>
   submitReceipt demo_crypto exact_stdlib exchange_body_canceled ''https://vfd.example/api''
     demo_headers ''key'' demo_receipt =
     (None, Some (WrapError ''receipt upload failed : '' ContextCanceled)) \<and>
   \<not> IsNetworkError (WrapError ''receipt upload failed : '' ContextCanceled) \<and>
   submitReport demo_crypto exact_stdlib exchange_Do_canceled ''https://vfd.example/api''
     demo_headers ''key'' demo_report =
     (None, Some (NetworkError (Some ContextCanceled)
                    ''submit report: context error (canceled or deadline exceeded)'')) \<and>
   submitReport demo_crypto exact_stdlib exchange_status_500 ''https://vfd.example/api''
     demo_headers ''key'' demo_report =
     (None, Some (ErrorString ''registration error: invalid signature'')) \<and>
   submitReport demo_crypto exact_stdlib exchange_body_canceled ''https://vfd.example/api''
     demo_headers ''key'' demo_report =
     (None, Some (WrapError ''report submit failed : '' ContextCanceled)) \<and>
   \<not> IsNetworkError (WrapError ''report submit failed : '' ContextCanceled)"
proof -
  obtain p1 where p1: "ReceiptBytes demo_crypto exact_stdlib ''key''
      (ReceiptRequest.Params demo_receipt) (ReceiptRequest.Customer demo_receipt)
      (Items demo_receipt) (Payments demo_receipt) = Inr p1"
    using demo_receipt_payload by blast
  obtain p2 where p2: "ReportBytes demo_crypto exact_stdlib ''key''
      (ReportRequest.Params demo_report) (ReportRequest.Address demo_report) (VATS demo_report)
      (ReportRequest.Payment demo_report) (Totals demo_report) = Inr p2"
    using demo_report_payload by blast
  note decode = decode_Error_envelope_demo
  let ?url = "''https://vfd.example/api''"
  let ?err = "NetErr ''Post: context canceled'' (Some ContextCanceled)"
  let ?body = "''<Error><Message>invalid signature</Message></Error>''"
  let ?r1 = "\<lparr> Method = ''POST'', URL = ?url, Header = [], Body = p1 \<rparr>"
  let ?r2 = "\<lparr> Method = ''POST'', URL = ?url, Header = [], Body = p2 \<rparr>"
  note canceled =
    submission_classifies_Do_failure_and_status_500
      [where c = demo_crypto and rt = exact_stdlib and k = "''key''" and rct = demo_receipt
         and report = demo_report and payload = p1 and rpayload = p2
         and ex = exchange_Do_canceled and url = ?url and ?req0.0 = ?r1 and ?rreq0.0 = ?r2
         and headers = demo_headers and err = ?err and cause = ContextCanceled
         and body = ?body and message = "''invalid signature''" and status = 200
         and readErr = ContextCanceled]
  note rejected =
    submission_classifies_Do_failure_and_status_500
      [where c = demo_crypto and rt = exact_stdlib and k = "''key''" and rct = demo_receipt
         and report = demo_report and payload = p1 and rpayload = p2
         and ex = exchange_status_500 and url = ?url and ?req0.0 = ?r1 and ?rreq0.0 = ?r2
         and headers = demo_headers and err = ?err and cause = ContextCanceled
         and body = ?body and message = "''invalid signature''" and status = 200
         and readErr = ContextCanceled]
  note unread =
    submission_classifies_Do_failure_and_status_500
      [where c = demo_crypto and rt = exact_stdlib and k = "''key''" and rct = demo_receipt
         and report = demo_report and payload = p1 and rpayload = p2
         and ex = exchange_body_canceled and url = ?url and ?req0.0 = ?r1 and ?rreq0.0 = ?r2
         and headers = demo_headers and err = ?err and cause = ContextCanceled
         and body = ?body and message = "''invalid signature''" and status = 200
         and readErr = ContextCanceled]
  have a: "submitReceipt demo_crypto exact_stdlib exchange_Do_canceled ?url
     demo_headers ''key'' demo_receipt =
     (None, Some (NetworkError (Some ContextCanceled)
                    ''receipt upload: context error (canceled or deadline exceeded)''))"
    using p1 canceled [THEN conjunct1]
    by (simp add: exchange_Do_canceled_def demo_NewRequest_def)
  have b: "submitReceipt demo_crypto exact_stdlib exchange_status_500 ?url
     demo_headers ''key'' demo_receipt =
     (None, Some (ErrorString ''registration error: invalid signature''))"
    using p1 decode rejected [THEN conjunct2, THEN conjunct1]
    by (simp add: exchange_status_500_def demo_NewRequest_def)
  have c: "submitReceipt demo_crypto exact_stdlib exchange_body_canceled ?url
     demo_headers ''key'' demo_receipt =
     (None, Some (WrapError ''receipt upload failed : '' ContextCanceled)) \<and>
     \<not> IsNetworkError (WrapError ''receipt upload failed : '' ContextCanceled)"
    using p1 unread [THEN conjunct2, THEN conjunct2, THEN conjunct1]
    by (simp add: exchange_body_canceled_def demo_NewRequest_def)
  have d: "submitReport demo_crypto exact_stdlib exchange_Do_canceled ?url
     demo_headers ''key'' demo_report =
     (None, Some (NetworkError (Some ContextCanceled)
                    ''submit report: context error (canceled or deadline exceeded)''))"
    using p2 canceled [THEN conjunct2, THEN conjunct2, THEN conjunct2, THEN conjunct1]
    by (simp add: exchange_Do_canceled_def demo_NewRequest_def)
  have e: "submitReport demo_crypto exact_stdlib exchange_status_500 ?url
     demo_headers ''key'' demo_report =
     (None, Some (ErrorString ''registration error: invalid signature''))"
    using p2 decode
      rejected [THEN conjunct2, THEN conjunct2, THEN conjunct2, THEN conjunct2, THEN conjunct1]
    by (simp add: exchange_status_500_def demo_NewRequest_def)
  have f: "submitReport demo_crypto exact_stdlib exchange_body_canceled ?url
     demo_headers ''key'' demo_report =
     (None, Some (WrapError ''report submit failed : '' ContextCanceled)) \<and>
     \<not> IsNetworkError (WrapError ''report submit failed : '' ContextCanceled)"
    using p2
      unread [THEN conjunct2, THEN conjunct2, THEN conjunct2, THEN conjunct2, THEN conjunct2]
    by (simp add: exchange_body_canceled_def demo_NewRequest_def)
  from a b c d e f show ?thesis
    by blast
qed

text \<open>
  Claim C8 as it is stated does not hold: a submission whose response arrives but whose
  body cannot be read because the context was canceled is a transport failure under a
  canceled context, and what \<^verbatim>\<open>submitReceipt\<close> returns for it is not a network error
  but the plain wrapped error \<^verbatim>\<open>receipt upload failed : context canceled\<close>.
\<close>

theorem body_read_failure_under_canceled_context_is_no_NetworkError:
  "ctx_Err exchange_body_canceled = Some ContextCanceled \<and>
   client_Do exchange_body_canceled
     (set_headers demo_crypto SubmitReceiptRoutingKey (CertSerial demo_headers)
        (BearerToken demo_headers)
        \<lparr> Method = ''POST'', URL = ''https://vfd.example/api'', Header = [], Body = [] \<rparr>) =
     DoResponse 200 (Inl ContextCanceled) \<and>
   submitReceipt demo_crypto exact_stdlib exchange_body_canceled ''https://vfd.example/api''
     demo_headers ''key'' demo_receipt =
     (None, Some (WrapError ''receipt upload failed : '' ContextCanceled)) \<and>
   \<not> IsNetworkError (WrapError ''receipt upload failed : '' ContextCanceled)"
proof -
  obtain p1 where p1: "ReceiptBytes demo_crypto exact_stdlib ''key''
      (ReceiptRequest.Params demo_receipt) (ReceiptRequest.Customer demo_receipt)
      (Items demo_receipt) (Payments demo_receipt) = Inr p1"
    using demo_receipt_payload by blast
  then show ?thesis
    by (simp add: submitReceipt_def Let_def exchange_body_canceled_def demo_NewRequest_def)
qed

section \<open>Properties of binary64 arithmetic\<close>

lemma bitlen_bounds:
  "0 < n \<Longrightarrow> 0 < bitlen n \<and> 2 ^ nat (bitlen n - 1) \<le> n \<and> n < 2 ^ nat (bitlen n)"
proof (induction n rule: bitlen.induct)
  case (1 n)
  show ?case
  proof (cases "n div 2 = 0")
    case True
    with "1.prems" have "n = 1" by auto
    then show ?thesis by (simp add: bitlen.simps)
  next
    case False
    with "1.prems" have pos: "0 < n div 2" by auto
    from "1.IH" "1.prems" pos
    have ih: "0 < bitlen (n div 2)" "2 ^ nat (bitlen (n div 2) - 1) \<le> n div 2"
      "n div 2 < 2 ^ nat (bitlen (n div 2))"
      by auto
    have b: "bitlen n = 1 + bitlen (n div 2)"
      using "1.prems" by (subst bitlen.simps) simp
    have e1: "nat (bitlen n - 1) = Suc (nat (bitlen (n div 2) - 1))"
      using ih(1) b by simp
    have e2: "nat (bitlen n) = Suc (nat (bitlen (n div 2)))"
      using ih(1) b by simp
    have "2 * 2 ^ nat (bitlen (n div 2) - 1) \<le> n"
      using ih(2) by linarith
    moreover have "n < 2 * 2 ^ nat (bitlen (n div 2))"
      using ih(3) by linarith
    moreover have "2 ^ nat (bitlen n - 1) = (2::int) * 2 ^ nat (bitlen (n div 2) - 1)"
      by (simp only: e1 power_Suc)
    moreover have "2 ^ nat (bitlen n) = (2::int) * 2 ^ nat (bitlen (n div 2))"
      by (simp only: e2 power_Suc)
    moreover have "0 < bitlen n"
      using b ih(1) by simp
    ultimately show ?thesis
      by simp
  qed
qed




lemma ilog2_upper:
  assumes "0 < r"
  shows "r < 2 powi (ilog2 r + 1)"
proof -
  obtain p q where pq: "quotient_of r = (p, q)" by (cases "quotient_of r")
  then have q: "0 < q" by (rule quotient_of_denom_pos)
  have r: "r = of_int p / of_int q"
    using pq by (rule quotient_of_div)
  with assms q have p: "0 < p"
    by (simp add: zero_less_divide_iff)
  let ?d = "bitlen p - bitlen q"
  show ?thesis
  proof (cases "2 powi ?d \<le> r")
    case False
    then show ?thesis by (simp add: ilog2_def pq)
  next
    case True
    from bitlen_bounds [OF p] have bp: "0 < bitlen p" "p < 2 ^ nat (bitlen p)" by auto
    from bitlen_bounds [OF q] have bq: "0 < bitlen q" "2 ^ nat (bitlen q - 1) \<le> q" by auto
    have P: "of_int p < (2::rat) powi (bitlen p)"
    proof -
      have "of_int p < (of_int (2 ^ nat (bitlen p)) :: rat)"
        using bp(2) by (simp only: of_int_less_iff)
      also have "\<dots> = 2 powi (bitlen p)"
        using bp(1) by (simp add: power_int_def)
      finally show ?thesis .
    qed
    have Q: "(2::rat) powi (bitlen q - 1) \<le> of_int q"
    proof -
      have "(2::rat) powi (bitlen q - 1) = 2 ^ nat (bitlen q - 1)"
        using bq(1) by (simp add: power_int_def)
      also have "\<dots> = of_int (2 ^ nat (bitlen q - 1))" by simp
      also have "\<dots> \<le> of_int q" using bq(2) by (simp only: of_int_le_iff)
      finally show ?thesis .
    qed
    have q1: "0 < (2::rat) powi (bitlen q - 1)"
      by (simp add: zero_less_power_int)
    have "r = of_int p / of_int q"
      by (rule r)
    also have "\<dots> \<le> of_int p / 2 powi (bitlen q - 1)"
    proof (rule divide_left_mono [OF Q])
      show "0 \<le> (of_int p :: rat)"
        using p by simp
      have "0 < (of_int q :: rat)"
        using q by simp
      then show "0 < of_int q * (2::rat) powi (bitlen q - 1)"
        using q1 by (rule mult_pos_pos)
    qed
    also have "\<dots> < 2 powi (bitlen p) / 2 powi (bitlen q - 1)"
      using P q1 by (simp add: divide_strict_right_mono)
    also have "\<dots> = 2 powi (?d + 1)"
      by (simp add: power_int_diff [symmetric] algebra_simps)
    finally show ?thesis
      using True by (simp add: ilog2_def pq)
  qed
qed























section \<open>Properties of the VAT split\<close>




end
